theory Spec2Isabelle
  imports Complex_Main
begin

section \<open>py3grads: the GrADS pipe protocol of \<open>gacore.py\<close>\<close>

text \<open>
  The module drives a GrADS process through two pipes.  The model below follows the
  source function by function.  The pipes carry bytes.  A Python string is a list of
  \<^typ>\<open>char\<close>, each standing for the character with that code point, from U+0000 to
  U+00FF; \<open>decode\<close> and \<open>encode\<close> go between the two.  The output of the process is
  the finite byte string it will still emit before its end of file; the input pipe is
  the byte string written to it so far.
\<close>

subsection \<open>Python strings\<close>

definition NL :: char where
  "NL = CHR 0x0A"

text \<open>\<open>s.startswith(sub)\<close>.\<close>

fun startswith :: "string \<Rightarrow> string \<Rightarrow> bool" where
  "startswith [] s = True"
| "startswith (p # ps) [] = False"
| "startswith (p # ps) (c # cs) = (p = c \<and> startswith ps cs)"

text \<open>\<open>sub in s\<close> on strings and on bytes.\<close>

fun py_in :: "string \<Rightarrow> string \<Rightarrow> bool" where
  "py_in sub [] = (sub = [])"
| "py_in sub (c # cs) = (startswith sub (c # cs) \<or> py_in sub cs)"

text \<open>\<open>s.split(sep)[0]\<close> for a non-empty separator: the text before its first occurrence,
  all of \<open>s\<close> when it does not occur.\<close>

fun split_first :: "string \<Rightarrow> string \<Rightarrow> string" where
  "split_first sep [] = []"
| "split_first sep (c # cs) = (if startswith sep (c # cs) then [] else c # split_first sep cs)"

text \<open>The characters \<open>str.split()\<close> treats as white space, among the code points below 256.\<close>

definition isspace :: "char \<Rightarrow> bool" where
  "isspace c = (of_char c \<in> {9, 10, 11, 12, 13, 28, 29, 30, 31, 32, 133, 160 :: nat})"

text \<open>\<open>s.split()\<close>: the maximal runs of characters that are not white space.  The
  first argument is the word being read.\<close>

fun split_ws :: "string \<Rightarrow> string \<Rightarrow> string list" where
  "split_ws w [] = (if w = [] then [] else [w])"
| "split_ws w (c # cs) =
     (if isspace c then (if w = [] then split_ws [] cs else w # split_ws [] cs)
      else split_ws (w @ [c]) cs)"

definition py_split :: "string \<Rightarrow> string list" where
  "py_split s = split_ws [] s"

text \<open>\<open>sep.join(xs)\<close>.\<close>

fun py_join :: "string \<Rightarrow> string list \<Rightarrow> string" where
  "py_join sep [] = []"
| "py_join sep [x] = x"
| "py_join sep (x # y # ys) = x @ sep @ py_join sep (y # ys)"

subsection \<open>Exceptions\<close>

datatype error =
    GrADSError string
  | PygradsError string
  | IndexError
  | ValueError
  | KeyError string
  | TypeError
  | OverflowError
  | AttributeError
  | BrokenPipeError
  | UnicodeDecodeError
  | WideCharacter

text \<open>
  \<open>WideCharacter\<close> is not an exception of Python.  It stands for a line that decodes
  to a character from U+0100 on, which \<^typ>\<open>char\<close> cannot hold: the model does not
  follow the code on such a line.
\<close>

text \<open>Indexing a list: \<open>xs[i]\<close> for \<open>i \<ge> 0\<close> and \<open>xs[-1]\<close>.\<close>

definition item :: "'a list \<Rightarrow> nat \<Rightarrow> error + 'a" where
  "item xs i = (if i < length xs then Inr (xs ! i) else Inl IndexError)"

definition item_last :: "'a list \<Rightarrow> error + 'a" where
  "item_last xs = (if xs = [] then Inl IndexError else Inr (last xs))"

definition sbind :: "error + 'a \<Rightarrow> ('a \<Rightarrow> error + 'b) \<Rightarrow> error + 'b" where
  "sbind m f = (case m of Inl e \<Rightarrow> Inl e | Inr a \<Rightarrow> f a)"

text \<open>\<open>int(s)\<close> on a token without white space: an optional sign, then decimal digits,
  single underscores allowed between digits (as from Python 3.6).  The bound on the
  number of digits that interpreters from 3.11 on set by default (4300) is not part of
  the model.\<close>

definition isdigit :: "char \<Rightarrow> bool" where
  "isdigit c = (48 \<le> (of_char c :: nat) \<and> (of_char c :: nat) \<le> 57)"

definition digit_val :: "char \<Rightarrow> int" where
  "digit_val c = int (of_char c) - 48"

text \<open>\<open>digits acc prev s\<close>: \<open>acc\<close> is the value read so far, \<open>prev\<close> tells whether the
  previous character was a digit.\<close>

fun digits :: "int \<Rightarrow> bool \<Rightarrow> string \<Rightarrow> error + int" where
  "digits acc prev [] = (if prev then Inr acc else Inl ValueError)"
| "digits acc prev (c # cs) =
     (if isdigit c then digits (10 * acc + digit_val c) True cs
      else if c = CHR ''_'' \<and> prev then digits acc False cs
      else Inl ValueError)"

fun py_int :: "string \<Rightarrow> error + int" where
  "py_int [] = Inl ValueError"
| "py_int (c # cs) =
     (if c = CHR ''-'' then sbind (digits 0 False cs) (\<lambda>n. Inr (- n))
      else if c = CHR ''+'' then digits 0 False cs
      else digits 0 False (c # cs))"

subsection \<open>Bytes and text\<close>

datatype encoding = Utf8 | Latin1

definition cont :: "char \<Rightarrow> bool" where
  "cont c = (128 \<le> (of_char c :: nat) \<and> (of_char c :: nat) < 192)"

text \<open>
  The code points of a UTF-8 byte string, \<open>None\<close> when the bytes are not valid UTF-8:
  a stray continuation byte, a sequence cut short, an overlong form, a surrogate, or a
  value above U+10FFFF.
\<close>

fun utf8_points :: "string \<Rightarrow> nat list option" where
  "utf8_points [] = Some []"
| "utf8_points (b # bs) =
     (let n = (of_char b :: nat) in
      if n < 128 then map_option ((#) n) (utf8_points bs)
      else if 194 \<le> n \<and> n \<le> 223 then
        (case bs of
           c1 # r \<Rightarrow>
             if cont c1
             then map_option ((#) ((n - 192) * 64 + (of_char c1 - 128))) (utf8_points r)
             else None
         | _ \<Rightarrow> None)
      else if 224 \<le> n \<and> n \<le> 239 then
        (case bs of
           c1 # c2 # r \<Rightarrow>
             if cont c1 \<and> cont c2
                \<and> (n = 224 \<longrightarrow> 160 \<le> (of_char c1 :: nat))
                \<and> (n = 237 \<longrightarrow> (of_char c1 :: nat) < 160)
             then map_option ((#) ((n - 224) * 4096 + (of_char c1 - 128) * 64 + (of_char c2 - 128)))
                    (utf8_points r)
             else None
         | _ \<Rightarrow> None)
      else if 240 \<le> n \<and> n \<le> 244 then
        (case bs of
           c1 # c2 # c3 # r \<Rightarrow>
             if cont c1 \<and> cont c2 \<and> cont c3
                \<and> (n = 240 \<longrightarrow> 144 \<le> (of_char c1 :: nat))
                \<and> (n = 244 \<longrightarrow> (of_char c1 :: nat) < 144)
             then map_option ((#) ((n - 240) * 262144 + (of_char c1 - 128) * 4096
                                   + (of_char c2 - 128) * 64 + (of_char c3 - 128)))
                    (utf8_points r)
             else None
         | _ \<Rightarrow> None)
      else None)"

text \<open>
  \<open>bs.decode(encoding)\<close>.  With \<open>latin-1\<close> every byte is the character of the same
  code point.  With \<open>utf-8\<close> invalid bytes raise \<open>UnicodeDecodeError\<close>; valid bytes
  give the characters of their code points, as far as \<^typ>\<open>char\<close> holds them.
\<close>

definition decode :: "encoding \<Rightarrow> string \<Rightarrow> error + string" where
  "decode enc bs =
     (case enc of
        Latin1 \<Rightarrow> Inr bs
      | Utf8 \<Rightarrow>
          (case utf8_points bs of
             None \<Rightarrow> Inl UnicodeDecodeError
           | Some ps \<Rightarrow>
               if list_all (\<lambda>p. p < 256) ps then Inr (map char_of ps) else Inl WideCharacter))"

text \<open>\<open>s.encode('utf-8')\<close> on the characters up to U+00FF.\<close>

definition encode_utf8 :: "string \<Rightarrow> string" where
  "encode_utf8 s =
     concat (map (\<lambda>c. if (of_char c :: nat) < 128 then [c]
                       else [char_of (192 + (of_char c :: nat) div 64),
                             char_of (128 + (of_char c :: nat) mod 64)]) s)"

text \<open>\<open>s.isascii()\<close>: on such bytes and text, decoding and encoding change nothing.\<close>

definition is_ascii :: "string \<Rightarrow> bool" where
  "is_ascii s = list_all (\<lambda>c. (of_char c :: nat) < 128) s"

subsection \<open>The session: \<open>class Grads\<close>\<close>

text \<open>
  \<open>stdout\<close> holds the bytes the process has still to deliver, \<open>stdin\<close> the bytes written
  to it.  \<open>stdin_broken\<close> says that the process has gone, so that a write fails.
  \<open>printed\<close> is what \<open>print\<close> has put on the console, one entry per call.
\<close>

record grads =
  verbose :: bool
  stdin :: string
  stdout :: string
  stdin_closed :: bool
  stdin_broken :: bool
  stdout_closed :: bool
  printed :: "string list"

type_synonym 'a io = "grads \<Rightarrow> (error + 'a) \<times> grads"

definition io_bind :: "'a io \<Rightarrow> ('a \<Rightarrow> 'b io) \<Rightarrow> 'b io" where
  "io_bind m f g = (case m g of (Inl e, g') \<Rightarrow> (Inl e, g') | (Inr a, g') \<Rightarrow> f a g')"

text \<open>\<open>readline()\<close> on the remaining bytes: up to and including the first line feed, or
  everything when there is none; empty at end of file.\<close>

fun readline :: "string \<Rightarrow> string \<times> string" where
  "readline [] = ([], [])"
| "readline (c # cs) =
     (if c = NL then ([c], cs) else (case readline cs of (l, r) \<Rightarrow> (c # l, r)))"

lemma readline_append: "readline s = (l, r) \<Longrightarrow> l @ r = s"
  by (induction s arbitrary: l r) (auto split: if_splits prod.splits)

lemma readline_length: "(l, r) = readline s \<Longrightarrow> length l + length r = length s"
  using readline_append [of s l r] by (metis length_append)

lemma readline_shorter: "(l, r) = readline s \<Longrightarrow> l \<noteq> [] \<Longrightarrow> length r < length s"
  using readline_length [of l r s] by (cases l) auto

lemma decode_Nil: "decode enc [] = Inr []"
  by (cases enc) (simp_all add: decode_def)

text \<open>\<open>self.p.stdout.readline().decode(encoding)\<close>: the text of the next line, or the
  exception of \<open>decode\<close>, and the bytes left.\<close>

definition read_text :: "encoding \<Rightarrow> string \<Rightarrow> (error + string) \<times> string" where
  "read_text enc s = (case readline s of (raw, s') \<Rightarrow> (decode enc raw, s'))"

lemma read_text_le: "(r, s') = read_text enc s \<Longrightarrow> length s' \<le> length s"
  using readline_length [of "fst (readline s)" "snd (readline s)" s]
  by (auto simp: read_text_def split: prod.splits)

lemma read_text_shorter:
  "(Inr out, s') = read_text enc s \<Longrightarrow> out \<noteq> [] \<Longrightarrow> length s' < length s"
proof -
  assume a: "(Inr out, s') = read_text enc s" and n: "out \<noteq> []"
  obtain raw where r: "readline s = (raw, s')" and d: "decode enc raw = Inr out"
    using a by (auto simp: read_text_def split: prod.splits)
  from d n have "raw \<noteq> []" by (auto simp: decode_Nil)
  with readline_shorter [of raw s' s] r show ?thesis by simp
qed

lemma read_text_measure:
  "(Inr out, s') = read_text enc s \<Longrightarrow> length s' + (if out = [] then 0 else 1) < Suc (length s)"
  using read_text_le [of "Inr out" s' enc s] read_text_shorter [of out s' enc s]
  by (cases "out = []") auto

text \<open>
  The loop \<open>while marker not in out: out = readline().decode(encoding); if len(out) == 0: raise\<close>
  of \<open>_parse_output\<close> and \<open>move_pointer\<close>.  It returns normally when the marker was
  found, or else the exception, then the lines read, and the bytes left.
\<close>

function seek_loop ::
  "encoding \<Rightarrow> string \<Rightarrow> string \<Rightarrow> string list \<Rightarrow> string \<Rightarrow> (error + unit) \<times> string list \<times> string" where
  "seek_loop enc marker out seen s =
     (if py_in marker out then (Inr (), seen, s)
      else (case read_text enc s of
        (Inl e, s') \<Rightarrow> (Inl e, seen, s')
      | (Inr out', s') \<Rightarrow>
          if out' = [] then (Inl (GrADSError ''GrADS terminated.''), seen @ [out'], s')
          else seek_loop enc marker out' (seen @ [out']) s'))"
  by pat_completeness auto
termination
  by (relation "measure (\<lambda>(enc, marker, out, seen, s). length s)")
     (auto dest: read_text_shorter)

declare seek_loop.simps [simp del]

text \<open>\<open>int(out.split()[1])\<close>.\<close>

definition int_second :: "string \<Rightarrow> error + int" where
  "int_second out = sbind (item (py_split out) 1) py_int"

text \<open>
  The second loop of \<open>_parse_output\<close>: \<open>while markend not in out\<close>.  It returns the
  return code or the exception, the lines collected, and the bytes left.
\<close>

function collect_loop ::
  "encoding \<Rightarrow> string \<Rightarrow> string \<Rightarrow> string list \<Rightarrow> int \<Rightarrow> string
     \<Rightarrow> (error + int) \<times> string list \<times> string" where
  "collect_loop enc markend out lines rc s =
     (if py_in markend out then (Inr rc, lines, s)
      else if out \<noteq> [] then
        (if py_in ''<RC>'' out then
           (case int_second out of
              Inl e \<Rightarrow> (Inl e, lines, s)
            | Inr rc' \<Rightarrow>
                (case read_text enc s of
                   (Inl e, s') \<Rightarrow> (Inl e, lines, s')
                 | (Inr out', s') \<Rightarrow> collect_loop enc markend out' lines rc' s'))
         else
           (case read_text enc s of
              (Inl e, s') \<Rightarrow> (Inl e, lines @ [butlast out], s')
            | (Inr out', s') \<Rightarrow> collect_loop enc markend out' (lines @ [butlast out]) rc s'))
      else (Inl (GrADSError ''GrADS terminated.''), lines, s))"
  by pat_completeness auto
termination
  by (relation "measure (\<lambda>(enc, markend, out, lines, rc, s). length s + (if out = [] then 0 else 1))")
     (auto dest: read_text_measure)

declare collect_loop.simps [simp del]

text \<open>
  \<open>_parse_output(marker, verbose, encoding)\<close>.  Reading a closed pipe raises
  \<open>ValueError\<close>.  The collected lines are printed one by one as they are read when
  \<open>verbose\<close> is set.
\<close>

definition parse_output :: "string \<Rightarrow> bool \<Rightarrow> encoding \<Rightarrow> (string list \<times> int) io" where
  "parse_output marker verb enc g =
     (if stdout_closed g then (Inl ValueError, g)
      else (case seek_loop enc (''<'' @ marker @ ''>'') [] [] (stdout g) of
        (Inl e, seen, s1) \<Rightarrow> (Inl e, g\<lparr>stdout := s1\<rparr>)
      | (Inr u, seen, s1) \<Rightarrow>
          (case read_text enc s1 of
             (Inl e, s2) \<Rightarrow> (Inl e, g\<lparr>stdout := s2\<rparr>)
           | (Inr out, s2) \<Rightarrow>
               (case collect_loop enc (''</'' @ marker @ ''>'') out [] (- 1) s2 of
                  (r, lines, s3) \<Rightarrow>
                    (case r of
                       Inl e \<Rightarrow> Inl e
                     | Inr rc \<Rightarrow> Inr (lines, rc),
                     g\<lparr>stdout := s3, printed := printed g @ (if verb then lines else [])\<rparr>)))))"

text \<open>\<open>move_pointer(marker, encoding, verbose)\<close>; every line read is printed when
  \<open>verbose\<close>.\<close>

definition move_pointer :: "string \<Rightarrow> encoding \<Rightarrow> bool \<Rightarrow> unit io" where
  "move_pointer marker enc verb g =
     (if py_in marker [] then (Inr (), g)
      else if stdout_closed g then (Inl ValueError, g)
      else (case seek_loop enc marker [] [] (stdout g) of
        (r, seen, s1) \<Rightarrow>
          (r, g\<lparr>stdout := s1, printed := printed g @ (if verb then seen else [])\<rparr>)))"

text \<open>\<open>self.p.stdin.write(bytes); self.p.stdin.flush()\<close> on the unbuffered pipe.\<close>

definition write_stdin :: "string \<Rightarrow> unit io" where
  "write_stdin bs g =
     (if stdin_closed g then (Inl ValueError, g)
      else if stdin_broken g then (Inl BrokenPipeError, g)
      else (Inr (), g\<lparr>stdin := stdin g @ bs\<rparr>))"

text \<open>The command as it is written: \<open>if gacmd[-1] != '\n': gacmd += '\n'\<close>.\<close>

definition terminated :: "string \<Rightarrow> string" where
  "terminated gacmd = (if last gacmd \<noteq> NL then gacmd @ [NL] else gacmd)"

text \<open>\<open>cmd(gacmd, verbose, block)\<close>; no call of the module sets \<open>encoding\<close>, which
  stays \<open>utf-8\<close>.\<close>

definition cmd :: "string \<Rightarrow> bool \<Rightarrow> bool \<Rightarrow> (string list \<times> int) io" where
  "cmd gacmd verb block g =
     (if gacmd = [] then (Inl IndexError, g)
      else
        io_bind (write_stdin (encode_utf8 (terminated gacmd))) (\<lambda>_ g1.
          if block then
            io_bind (parse_output ''IPC'' (if verb then verbose g1 else False) Utf8) (\<lambda>(outlines, rc) g2.
              if py_in ''Syntax Error'' (py_join [NL] outlines)
              then (Inl (GrADSError (''Syntax Error while evaluating '' @ terminated gacmd)), g2)
              else (Inr (outlines, rc), g2)) g1
          else (Inr ([], 0), g1)) g)"

text \<open>\<open>flush()\<close>.\<close>

definition flush :: "unit io" where
  "flush = io_bind (cmd ''q config'' False True) (\<lambda>_ g. (Inr (), g))"

text \<open>
  \<open>__del__\<close>: \<open>try: cmd('quit'); stdin.close(); stdout.close()  except: pass\<close>.
  \<open>try_pass\<close> is the bare \<open>except: pass\<close>: whatever the body raised, control leaves
  the statement normally, in the state the body had reached.
\<close>

definition try_pass :: "unit io \<Rightarrow> unit io" where
  "try_pass body g = (case body g of (Inl e, g') \<Rightarrow> (Inr (), g') | (Inr u, g') \<Rightarrow> (Inr (), g'))"

definition close_stdin :: "unit io" where
  "close_stdin g = (Inr (), g\<lparr>stdin_closed := True\<rparr>)"

definition close_stdout :: "unit io" where
  "close_stdout g = (Inr (), g\<lparr>stdout_closed := True\<rparr>)"

definition del :: "unit io" where
  "del = try_pass
     (io_bind (cmd ''quit'' True True) (\<lambda>_.
      io_bind close_stdin (\<lambda>_. close_stdout)))"

subsection \<open>Numbers and dates of the Python library\<close>

text \<open>
  A Python \<open>float\<close> is an IEEE double: a rational number, an infinity or a NaN (the sign
  of zero plays no role here).  \<open>np.floor\<close>, \<open>np.ceil\<close>, \<open>np.round\<close> and \<open>int\<close> are
  exact on doubles, so they are modelled on the rational value.
\<close>

datatype pyfloat = Finite rat | Infinity bool | NaN

definition np_floor :: "pyfloat \<Rightarrow> pyfloat" where
  "np_floor v = (case v of Finite q \<Rightarrow> Finite (of_int \<lfloor>q\<rfloor>) | _ \<Rightarrow> v)"

definition np_ceil :: "pyfloat \<Rightarrow> pyfloat" where
  "np_ceil v = (case v of Finite q \<Rightarrow> Finite (of_int \<lceil>q\<rceil>) | _ \<Rightarrow> v)"

text \<open>\<open>np.round\<close> rounds a half to the even neighbour.\<close>

definition half_even :: "rat \<Rightarrow> int" where
  "half_even q =
     (let f = \<lfloor>q\<rfloor>; d = q - of_int f
      in if d < 1 / 2 then f else if 1 / 2 < d then f + 1 else if even f then f else f + 1)"

definition np_round :: "pyfloat \<Rightarrow> pyfloat" where
  "np_round v = (case v of Finite q \<Rightarrow> Finite (of_int (half_even q)) | _ \<Rightarrow> v)"

text \<open>\<open>int(v)\<close> on a float truncates towards zero; it raises on an infinity and on NaN.\<close>

definition int_of_float :: "pyfloat \<Rightarrow> error + int" where
  "int_of_float v =
     (case v of
        Finite q \<Rightarrow> Inr (if 0 \<le> q then \<lfloor>q\<rfloor> else \<lceil>q\<rceil>)
      | Infinity _ \<Rightarrow> Inl OverflowError
      | NaN \<Rightarrow> Inl ValueError)"

record datetime =
  year :: int
  month :: int
  day :: int
  hour :: int

text \<open>
  \<open>float(s)\<close> and \<open>datetime.strptime(s, '%HZ%d%b%Y')\<close> belong to the Python library,
  not to this module: the environment parser takes them as a parameter.
\<close>

record pylib =
  float_of :: "string \<Rightarrow> error + pyfloat"
  strptime :: "string \<Rightarrow> error + datetime"

subsection \<open>The environment: \<open>class GaEnv\<close>\<close>

text \<open>A dimension value is a single number when the dimension is fixed and a pair
  when it varies.\<close>

datatype 'a dimval = Single 'a | Pair 'a 'a

text \<open>
  The attributes set by the \<open>dims\<close> query.  The grid coordinates \<open>self.x\<close>, \<open>self.y\<close>,
  \<open>self.z\<close>, \<open>self.t\<close>, \<open>self.e\<close> are the fields \<open>gx\<close>, \<open>gy\<close>, \<open>gz\<close>, \<open>gt\<close>, \<open>ge\<close>.
\<close>

record dims =
  fid :: int
  xfixed :: bool
  yfixed :: bool
  zfixed :: bool
  tfixed :: bool
  efixed :: bool
  lon :: "pyfloat dimval"
  gx :: "pyfloat dimval"
  xi :: "int dimval"
  lat :: "pyfloat dimval"
  gy :: "pyfloat dimval"
  yi :: "int dimval"
  lev :: "pyfloat dimval"
  gz :: "pyfloat dimval"
  zi :: "int dimval"
  time :: "datetime dimval"
  gt :: "pyfloat dimval"
  ti :: "int dimval"
  ge :: "pyfloat dimval"
  ei :: "int dimval"
  nx :: int
  ny :: int
  nz :: int
  nt :: int
  ne :: int
  rank :: int

text \<open>The world coordinate of an axis: \<open>float(info[5])\<close> when fixed,
  \<open>(float(info[5]), float(info[7]))\<close> when varying; \<open>strptime\<close> in place of \<open>float\<close>
  for the time axis.\<close>

definition world_of :: "(string \<Rightarrow> error + 'w) \<Rightarrow> bool \<Rightarrow> string list \<Rightarrow> error + 'w dimval" where
  "world_of conv fixed info =
     (if fixed then
        sbind (item info 5) (\<lambda>a. sbind (conv a) (\<lambda>w. Inr (Single w)))
      else
        sbind (item info 5) (\<lambda>a. sbind (conv a) (\<lambda>w1.
        sbind (item info 7) (\<lambda>b. sbind (conv b) (\<lambda>w2. Inr (Pair w1 w2))))))"

text \<open>The grid coordinate and the integer grid index of an axis:
  \<open>x = float(info[8]); xi = int(np.round(x))\<close> when fixed,
  \<open>x = (float(info[10]), float(info[12])); xi = (int(np.floor(x[0])), int(np.ceil(x[1])))\<close>
  when varying.\<close>

definition grid_of :: "pylib \<Rightarrow> bool \<Rightarrow> string list \<Rightarrow> error + pyfloat dimval \<times> int dimval" where
  "grid_of py fixed info =
     (if fixed then
        sbind (item info 8) (\<lambda>a. sbind (float_of py a) (\<lambda>v.
        sbind (int_of_float (np_round v)) (\<lambda>i. Inr (Single v, Single i))))
      else
        sbind (item info 10) (\<lambda>a. sbind (float_of py a) (\<lambda>v1.
        sbind (item info 12) (\<lambda>b. sbind (float_of py b) (\<lambda>v2.
        sbind (int_of_float (np_floor v1)) (\<lambda>lo.
        sbind (int_of_float (np_ceil v2)) (\<lambda>hi. Inr (Pair v1 v2, Pair lo hi))))))))"

text \<open>The length of an axis: \<open>1\<close> when fixed, \<open>xi[1] - xi[0] + 1\<close> otherwise.\<close>

definition axis_len :: "bool \<Rightarrow> int dimval \<Rightarrow> error + int" where
  "axis_len fixed idx =
     (if fixed then Inr 1
      else (case idx of Pair lo hi \<Rightarrow> Inr (hi - lo + 1) | Single i \<Rightarrow> Inl TypeError))"

text \<open>\<open>sum([not d for d in ds])\<close>.\<close>

definition count_not :: "bool list \<Rightarrow> int" where
  "count_not ds = sum_list (map (\<lambda>d. if \<not> d then 1 else 0) ds)"

text \<open>The body of the \<open>dims\<close> branch of \<open>GaEnv.__init__\<close>, on the lines of the reply.\<close>

definition parse_dims :: "pylib \<Rightarrow> string list \<Rightarrow> error + dims" where
  "parse_dims py qdims =
     sbind (item qdims 0) (\<lambda>l0. sbind (item_last (py_split l0)) (\<lambda>tok. sbind (py_int tok) (\<lambda>fid'.
     sbind (item qdims 1) (\<lambda>l1. sbind (item qdims 2) (\<lambda>l2. sbind (item qdims 3) (\<lambda>l3.
     sbind (item qdims 4) (\<lambda>l4. sbind (item qdims 5) (\<lambda>l5.
     let xf = py_in ''fixed'' l1; yf = py_in ''fixed'' l2; zf = py_in ''fixed'' l3;
         tf = py_in ''fixed'' l4; ef = py_in ''fixed'' l5
     in
     sbind (world_of (float_of py) xf (py_split l1)) (\<lambda>lon'.
     sbind (grid_of py xf (py_split l1)) (\<lambda>(x', xi').
     sbind (world_of (float_of py) yf (py_split l2)) (\<lambda>lat'.
     sbind (grid_of py yf (py_split l2)) (\<lambda>(y', yi').
     sbind (world_of (float_of py) zf (py_split l3)) (\<lambda>lev'.
     sbind (grid_of py zf (py_split l3)) (\<lambda>(z', zi').
     sbind (world_of (strptime py) tf (py_split l4)) (\<lambda>time'.
     sbind (grid_of py tf (py_split l4)) (\<lambda>(t', ti').
     sbind (grid_of py ef (py_split l5)) (\<lambda>(e', ei').
     sbind (axis_len xf xi') (\<lambda>nx'.
     sbind (axis_len yf yi') (\<lambda>ny'.
     sbind (axis_len zf zi') (\<lambda>nz'.
     sbind (axis_len tf ti') (\<lambda>nt'.
     sbind (axis_len ef ei') (\<lambda>ne'.
     Inr \<lparr>fid = fid', xfixed = xf, yfixed = yf, zfixed = zf, tfixed = tf, efixed = ef,
          lon = lon', gx = x', xi = xi', lat = lat', gy = y', yi = yi',
          lev = lev', gz = z', zi = zi', time = time', gt = t', ti = ti',
          ge = e', ei = ei', nx = nx', ny = ny', nz = nz', nt = nt', ne = ne',
          rank = count_not [xf, yf, zf, tf, ef]\<rparr>))))))))))))))))))))))"

text \<open>The attributes set by the \<open>ctlinfo\<close> query; \<open>Nx\<close> to \<open>Nt\<close> stay unset until a
  line defines them.\<close>

record ctlinfo =
  Nx :: "int option"
  Ny :: "int option"
  Nz :: "int option"
  Nt :: "int option"
  Ne :: int

text \<open>\<open>a in line or b in line\<close>.\<close>

definition either_in :: "string \<Rightarrow> string \<Rightarrow> string \<Rightarrow> bool" where
  "either_in a b line = (py_in a line \<or> py_in b line)"

text \<open>The loop \<open>for line in qctl\<close> with its chain of \<open>if\<close> and \<open>elif\<close>.\<close>

fun ctl_scan :: "string list \<Rightarrow> ctlinfo \<Rightarrow> error + ctlinfo" where
  "ctl_scan [] c = Inr c"
| "ctl_scan (line # ls) c =
     (if either_in ''xdef '' ''XDEF '' line then
        sbind (int_second line) (\<lambda>n. ctl_scan ls (c\<lparr>Nx := Some n\<rparr>))
      else if either_in ''ydef '' ''YDEF '' line then
        sbind (int_second line) (\<lambda>n. ctl_scan ls (c\<lparr>Ny := Some n\<rparr>))
      else if either_in ''zdef '' ''ZDEF '' line then
        sbind (int_second line) (\<lambda>n. ctl_scan ls (c\<lparr>Nz := Some n\<rparr>))
      else if either_in ''tdef '' ''TDEF '' line then
        sbind (int_second line) (\<lambda>n. ctl_scan ls (c\<lparr>Nt := Some n\<rparr>))
      else if either_in ''edef '' ''EDEF '' line then
        sbind (int_second line) (\<lambda>n. ctl_scan ls (c\<lparr>Ne := n\<rparr>))
      else ctl_scan ls c)"

definition parse_ctlinfo :: "string list \<Rightarrow> error + ctlinfo" where
  "parse_ctlinfo qctl = ctl_scan qctl \<lparr>Nx = None, Ny = None, Nz = None, Nt = None, Ne = 1\<rparr>"

text \<open>The dictionary \<open>graphicTypes\<close>; the value \<open>None\<close> of Python is \<open>None\<close> here.\<close>

definition graphicTypes :: "(string \<times> string option) list" where
  "graphicTypes =
     [(''Contour'', Some ''contour''), (''Line'', Some ''line''), (''Barb'', Some ''barb''),
      (''16'', Some ''shaded''), (''17'', Some ''shade2b''), (''Shaded'', Some ''shade1''),
      (''Vector'', Some ''vector''), (''Shapefile'', Some ''shp''), (''Bar'', Some ''bar''),
      (''Grid'', Some ''grid''), (''Grfill'', Some ''grfill''), (''Stream'', Some ''stream''),
      (''Errbar'', Some ''errbar''), (''GeoTIFF'', Some ''geotiff''), (''Fgrid'', Some ''fgrid''),
      (''ImageMap'', Some ''imap''), (''KML'', Some ''kml''), (''Linefill'', Some ''linefill''),
      (''Scatter'', Some ''scatter''), (''Fwrite'', Some ''fwrite''), (''0'', None)]"

text \<open>\<open>graphicTypes[k]\<close>.\<close>

definition graphic_type :: "string \<Rightarrow> error + string option" where
  "graphic_type k = (case map_of graphicTypes k of None \<Rightarrow> Inl (KeyError k) | Some v \<Rightarrow> Inr v)"

record gxout =
  gx1Dscalar :: "string option"
  gx1Dvector :: "string option"
  gx2Dscalar :: "string option"
  gx2Dvector :: "string option"
  stationData :: "string option"

text \<open>\<open>qgxout[i].split()[-1]\<close>.\<close>

definition last_token :: "string list \<Rightarrow> nat \<Rightarrow> error + string" where
  "last_token q i = sbind (item q i) (\<lambda>l. item_last (py_split l))"

definition parse_gxout :: "string list \<Rightarrow> error + gxout" where
  "parse_gxout qgxout =
     sbind (last_token qgxout 1) (\<lambda>k1. sbind (graphic_type k1) (\<lambda>m1.
     sbind (last_token qgxout 2) (\<lambda>k2. sbind (graphic_type k2) (\<lambda>m2.
     sbind (last_token qgxout 3) (\<lambda>k3. sbind (graphic_type k3) (\<lambda>m3.
     sbind (last_token qgxout 4) (\<lambda>k4. sbind (graphic_type k4) (\<lambda>m4.
     sbind (last_token qgxout 5) (\<lambda>sd.
     Inr \<lparr>gx1Dscalar = m1, gx1Dvector = m2, gx2Dscalar = m3, gx2Dvector = m4,
          stationData = (if sd = ''6'' then None else Some sd)\<rparr>)))))))))"

text \<open>One query of \<open>GaEnv.__init__\<close>: \<open>ga.cmd(q, verbose=ga.verbose)\<close>, the test of the
  return code, and the parser on the lines of the reply.\<close>

definition query :: "string \<Rightarrow> (string list \<Rightarrow> error + 'a) \<Rightarrow> 'a io" where
  "query q parse g =
     io_bind (cmd (''query '' @ q) (verbose g) True) (\<lambda>(lines, rc) g'.
       if rc > 0 then (Inl (GrADSError (''Error running \"query '' @ q @ ''\"'')), g')
       else (parse lines, g')) g"

text \<open>A \<open>GaEnv\<close> object: each group of attributes is present when its query was made.\<close>

record gaenv =
  dims_of :: "dims option"
  ctl_of :: "ctlinfo option"
  gxout_of :: "gxout option"

text \<open>\<open>GaEnv.__init__(ga, query)\<close>.\<close>

definition GaEnv_init :: "pylib \<Rightarrow> string \<Rightarrow> gaenv io" where
  "GaEnv_init py q =
     io_bind (if q = ''dims'' \<or> q = ''all''
              then io_bind (query ''dims'' (parse_dims py)) (\<lambda>d g. (Inr (Some d), g))
              else (\<lambda>g. (Inr None, g))) (\<lambda>d.
     io_bind (if q = ''ctlinfo'' \<or> q = ''all''
              then io_bind (query ''ctlinfo'' parse_ctlinfo) (\<lambda>c g. (Inr (Some c), g))
              else (\<lambda>g. (Inr None, g))) (\<lambda>c.
     io_bind (if q = ''gxout'' \<or> q = ''all''
              then io_bind (query ''gxout'' parse_gxout) (\<lambda>x g. (Inr (Some x), g))
              else (\<lambda>g. (Inr None, g))) (\<lambda>x g.
     (Inr \<lparr>dims_of = d, ctl_of = c, gxout_of = x\<rparr>, g))))"

text \<open>\<open>env(query)\<close>.\<close>

definition env :: "pylib \<Rightarrow> string \<Rightarrow> gaenv io" where
  "env py q = GaEnv_init py q"

subsection \<open>Export: \<open>Grads.exp\<close>\<close>

definition chsize :: nat where
  "chsize = 4096"

text \<open>
  The loop \<open>while True: chunk = read(chsize); ...\<close> of \<open>exp\<close>, with the buffer
  \<open>handle\<close> and the bytes still on the pipe.  A read delivers the next \<open>chsize\<close> bytes,
  fewer when fewer are left, none at the end of file.  The loop has no exit but the
  marker: when it does not return, the value is \<open>None\<close>.
\<close>

partial_function (option) read_raw :: "string \<Rightarrow> string \<Rightarrow> (string \<times> string) option" where
  "read_raw handle s =
     (let chunk = take chsize s; s' = drop chsize s
      in if py_in (NL # ''<RC>'') chunk
         then Some (handle @ split_first (NL # ''<RC>'') chunk, s')
         else read_raw (handle @ chunk) s')"

declare read_raw.simps [code]

text \<open>The list \<open>possible_sizes\<close> built by the two nested \<open>for\<close> loops.\<close>

definition possible_sizes :: "int \<Rightarrow> int \<Rightarrow> ((int \<times> int) \<times> int) list" where
  "possible_sizes nx0 ny0 =
     concat (map (\<lambda>dim. map (\<lambda>di.
         (let (nx', ny') = (if dim = ''x'' then (nx0 + di, ny0) else (nx0, ny0 + di))
          in ((nx', ny'), nx' * ny')))
       [- 2, - 1, 0, 1, 2]) [''x'', ''y''])"

text \<open>\<open>np.fromstring(bytes, dtype=np.float32)\<close>: the groups of four bytes, each the
  bit pattern of one value; \<open>ValueError\<close> when the length is not a multiple of four.\<close>

definition fromstring :: "string \<Rightarrow> error + string list" where
  "fromstring bs =
     (if length bs mod 4 \<noteq> 0 then Inl ValueError
      else Inr (map (\<lambda>i. take 4 (drop (4 * i) bs)) [0..<length bs div 4]))"

text \<open>\<open>xs.index(v)\<close> for a value that occurs in \<open>xs\<close>.\<close>

definition index_of :: "'a list \<Rightarrow> 'a \<Rightarrow> nat" where
  "index_of xs v = length (takeWhile (\<lambda>a. a \<noteq> v) xs)"

text \<open>
  The \<open>try\<close> statement of \<open>exp\<close>: the array and the shape \<open>(nx, ny)\<close> chosen for it.
  Whatever the body raises becomes the \<open>PygradsError\<close> of the \<open>except\<close> clause.
\<close>

definition resolve_shape :: "string \<Rightarrow> int \<Rightarrow> int \<Rightarrow> string \<Rightarrow> error + string list \<times> (int \<times> int)" where
  "resolve_shape expr nx0 ny0 payload =
     (let dims = map fst (possible_sizes nx0 ny0);
          sizes = map snd (possible_sizes nx0 ny0)
      in case fromstring payload of
           Inl e \<Rightarrow> Inl (PygradsError (''Problems occurred while exporting GrADS expression: '' @ expr))
         | Inr arr \<Rightarrow>
             if int (length arr) \<in> set sizes
             then Inr (arr, dims ! index_of sizes (int (length arr)))
             else Inl (PygradsError (''Problems occurred while exporting GrADS expression: '' @ expr)))"

text \<open>
  The exported grid: its shape \<open>(ny, nx)\<close> and its values in row-major order.
  \<open>arr.reshape((ny, nx))\<close> is only called with \<open>ny * nx\<close> equal to the size of \<open>arr\<close>;
  it then fails exactly when a dimension is negative.
\<close>

record grid =
  shape :: "int \<times> int"
  vals :: "string list"

definition reshape :: "string list \<Rightarrow> int \<times> int \<Rightarrow> error + grid" where
  "reshape arr sh =
     (if 0 \<le> fst sh \<and> 0 \<le> snd sh \<and> fst sh * snd sh = int (length arr)
      then Inr \<lparr>shape = sh, vals = arr\<rparr> else Inl ValueError)"

text \<open>\<open>'set gxout ' + env.gx2Dscalar\<close>: adding \<open>None\<close> to a string is a \<open>TypeError\<close>.\<close>

definition restore_cmd :: "string option \<Rightarrow> error + string" where
  "restore_cmd m = (case m of None \<Rightarrow> Inl TypeError | Some name \<Rightarrow> Inr (''set gxout '' @ name))"

text \<open>\<open>exp\<close> from the end of the read loop on: \<open>flush()\<close>, the shape, and the
  commands that restore the display.\<close>

definition exp_finish :: "string \<Rightarrow> dims \<Rightarrow> gxout \<Rightarrow> string \<Rightarrow> grid io" where
  "exp_finish expr d x payload =
     io_bind flush (\<lambda>_ g.
       case resolve_shape expr (nx d) (ny d) payload of
         Inl e \<Rightarrow> (Inl e, g)
       | Inr (arr, (nx', ny')) \<Rightarrow>
           io_bind (cmd ''disable fwrite'' False True) (\<lambda>_ g'.
             case restore_cmd (gx2Dscalar x) of
               Inl e \<Rightarrow> (Inl e, g')
             | Inr c \<Rightarrow> io_bind (cmd c False True) (\<lambda>_ g''. (reshape arr (ny', nx'), g'')) g') g)"

text \<open>The commands of \<open>exp\<close> that switch GrADS to binary output and start the display,
  up to \<open>move_pointer('<FWRITE>')\<close>.\<close>

definition exp_start :: "string \<Rightarrow> unit io" where
  "exp_start expr =
     io_bind (cmd ''set gxout fwrite'' False True) (\<lambda>_.
     io_bind (cmd ''set fwrite -st -'' False True) (\<lambda>_.
     io_bind (cmd (''display '' @ expr) False False) (\<lambda>_.
     move_pointer ''<FWRITE>'' Latin1 False)))"

text \<open>\<open>exp(expr)\<close>.  The result is \<open>None\<close> when the read loop does not return.  An
  attribute of the environment that was not set would be an \<open>AttributeError\<close>.\<close>

definition exp :: "pylib \<Rightarrow> string \<Rightarrow> grads \<Rightarrow> ((error + grid) \<times> grads) option" where
  "exp py expr g =
     (case env py ''all'' g of
        (Inl e, g1) \<Rightarrow> Some (Inl e, g1)
      | (Inr ev, g1) \<Rightarrow>
          (case dims_of ev of
             None \<Rightarrow> Some (Inl AttributeError, g1)
           | Some d \<Rightarrow>
               if (xfixed d \<or> yfixed d) \<or> rank d \<noteq> 2
               then Some (Inl (PygradsError (''Unsupported environment for export of expression: '' @ expr)), g1)
               else (case exp_start expr g1 of
                  (Inl e, g2) \<Rightarrow> Some (Inl e, g2)
                | (Inr _, g2) \<Rightarrow>
                    if stdout_closed g2 then Some (Inl ValueError, g2)
                    else (case read_raw [] (stdout g2) of
                       None \<Rightarrow> None
                     | Some (payload, s') \<Rightarrow>
                         (case gxout_of ev of
                            None \<Rightarrow> Some (Inl AttributeError, g2\<lparr>stdout := s'\<rparr>)
                          | Some x \<Rightarrow> Some (exp_finish expr d x payload (g2\<lparr>stdout := s'\<rparr>)))))))"

text \<open>The bytes of a list of lines on the pipe: every line is followed by a line feed.\<close>

definition text_of :: "string list \<Rightarrow> string" where
  "text_of ls = concat (map (\<lambda>l. l @ [NL]) ls)"

subsection \<open>Values of the library for the examples\<close>

text \<open>
  The values of \<open>float\<close> and of \<open>strptime\<close> with the format \<open>%HZ%d%b%Y\<close> at the
  tokens that occur in the examples of this theory; each of these decimal numbers is a
  double.  The examples apply the library to no other token.
\<close>

definition example_lib :: pylib where
  "example_lib =
     \<lparr>float_of = (\<lambda>s.
        case map_of [(''0'', 0), (''1'', 1), (''3'', 3), (''5'', 5), (''73'', 73), (''90'', 90),
                     (''-90'', - 90), (''360'', 360), (''1000'', 1000), (''1.5'', 3 / 2),
                     (''3.25'', 13 / 4)] s of
          None \<Rightarrow> Inl ValueError
        | Some q \<Rightarrow> Inr (Finite q)),
      strptime = (\<lambda>s.
        if s = ''00Z01JAN2000'' then Inr \<lparr>year = 2000, month = 1, day = 1, hour = 0\<rparr>
        else Inl ValueError)\<rparr>"

text \<open>A reply to \<open>query dims\<close>: two varying axes, three fixed ones.\<close>

definition ex_dims :: "string list" where
  "ex_dims = [''Default file number is: 1'',
      ''X is varying   Lon = 0 to 360   X = 1.5 to 3.25'',
      ''Y is varying   Lat = -90 to 90   Y = 1 to 73'',
      ''Z is fixed     Lev = 1000  Z = 1'',
      ''T is fixed     Time = 00Z01JAN2000  T = 1'',
      ''E is fixed     Ens = 1  E = 1'']"

text \<open>The same reply with the \<open>x\<close> axis fixed, and replies to \<open>query ctlinfo\<close> and
  \<open>query gxout\<close>.\<close>

definition ex_dims_xfixed :: "string list" where
  "ex_dims_xfixed = [''Default file number is: 1'',
      ''X is fixed     Lon = 0  X = 1'',
      ''Y is varying   Lat = -90 to 90   Y = 1 to 73'',
      ''Z is fixed     Lev = 1000  Z = 1'',
      ''T is fixed     Time = 00Z01JAN2000  T = 1'',
      ''E is fixed     Ens = 1  E = 1'']"

definition ex_ctl :: "string list" where
  "ex_ctl = [''dset ^model.dat'', ''xdef 144 linear 0 2.5'', ''ydef 73 linear -90 2.5'']"

definition ex_gxout :: "string list" where
  "ex_gxout = [''General = Contour'', ''1D Graphic, 1 expr = Line'', ''1D Graphic, 2 expr = Barb'',
      ''2D Graphic, 1 expr = 16'', ''2D Graphic, 2 expr = Vector'', ''Station data = 6'']"

text \<open>A frame with return code \<open>0\<close> around the lines of a reply, and a session whose
  process answers the three queries of the environment and then ends.\<close>

definition ex_frame :: "string list \<Rightarrow> string" where
  "ex_frame ls = text_of ([''<IPC>''] @ ls @ [''<RC> 0'', ''</IPC>''])"

definition ex_session :: "string list \<Rightarrow> grads" where
  "ex_session qdims =
     \<lparr>verbose = False, stdin = [], stdout = ex_frame qdims @ ex_frame ex_ctl @ ex_frame ex_gxout,
      stdin_closed = False, stdin_broken = False, stdout_closed = False, printed = []\<rparr>"

section \<open>Properties\<close>

subsection \<open>Decoding and encoding ASCII text\<close>

lemma utf8_points_ascii: "is_ascii bs \<Longrightarrow> utf8_points bs = Some (map of_char bs)"
  by (induction bs) (auto simp: is_ascii_def Let_def)

lemma decode_ascii: "is_ascii bs \<Longrightarrow> decode enc bs = Inr bs"
proof (cases enc)
  case Latin1
  then show ?thesis by (simp add: decode_def)
next
  case Utf8
  assume a: "is_ascii bs"
  have "list_all (\<lambda>p. p < 256) (map of_char bs :: nat list)"
    using a by (induction bs) (auto simp: is_ascii_def)
  moreover have "map char_of (map of_char bs :: nat list) = bs"
    by (induction bs) auto
  ultimately show ?thesis using Utf8 utf8_points_ascii [OF a] by (simp add: decode_def)
qed

lemma is_ascii_snoc_NL: "is_ascii l \<Longrightarrow> is_ascii (l @ [NL])"
  by (simp add: is_ascii_def NL_def)

lemma encode_utf8_ascii: "is_ascii s \<Longrightarrow> encode_utf8 s = s"
  by (induction s) (auto simp: is_ascii_def encode_utf8_def)

lemma encode_utf8_append: "encode_utf8 (a @ b) = encode_utf8 a @ encode_utf8 b"
  by (simp add: encode_utf8_def)

lemma encode_utf8_NL: "encode_utf8 [NL] = [NL]"
  by (simp add: encode_utf8_def NL_def)

lemma last_encode_utf8: "s \<noteq> [] \<Longrightarrow> last s = NL \<Longrightarrow> last (encode_utf8 s) = NL"
proof -
  assume "s \<noteq> []" "last s = NL"
  then have "s = butlast s @ [NL]" by (metis append_butlast_last_id)
  then have "encode_utf8 s = encode_utf8 (butlast s) @ [NL]"
    using encode_utf8_append [of "butlast s" "[NL]"] encode_utf8_NL by simp
  then show ?thesis by simp
qed

subsection \<open>Lines and frames\<close>

lemma startswith_snoc: "c \<notin> set m \<Longrightarrow> startswith m (l @ [c]) = startswith m l"
  by (induction m l rule: startswith.induct) auto

lemma py_in_snoc: "c \<notin> set m \<Longrightarrow> m \<noteq> [] \<Longrightarrow> py_in m (l @ [c]) = py_in m l"
proof (induction l)
  case Nil
  then show ?case by (cases m) auto
next
  case (Cons a l)
  then show ?case using startswith_snoc [of c m "a # l"] by simp
qed

lemma readline_line: "NL \<notin> set l \<Longrightarrow> readline (l @ NL # rest) = (l @ [NL], rest)"
  by (induction l) auto

lemma split_ws_snoc: "isspace c \<Longrightarrow> split_ws w (l @ [c]) = split_ws w l"
  by (induction l arbitrary: w) auto

lemma isspace_NL: "isspace NL"
  by (simp add: isspace_def NL_def)

lemma int_second_snoc: "int_second (l @ [NL]) = int_second l"
  by (simp add: int_second_def py_split_def split_ws_snoc isspace_NL)


lemma read_text_line:
  "is_ascii l \<Longrightarrow> NL \<notin> set l \<Longrightarrow> read_text enc (l @ NL # rest) = (Inr (l @ [NL]), rest)"
  by (simp add: read_text_def readline_line decode_ascii is_ascii_snoc_NL)

lemma seek_pre:
  assumes "\<forall>l\<in>set pre. is_ascii l \<and> NL \<notin> set l \<and> \<not> py_in m l"
    "is_ascii opn" "NL \<notin> set opn" "py_in m opn"
    "NL \<notin> set m" "m \<noteq> []" "\<not> py_in m out"
  shows "seek_loop enc m out seen (text_of pre @ opn @ NL # rest)
       = (Inr (), seen @ map (\<lambda>l. l @ [NL]) (pre @ [opn]), rest)"
  using assms
proof (induction pre arbitrary: out seen)
  case Nil
  then show ?case
    by (subst seek_loop.simps) (simp add: text_of_def read_text_line py_in_snoc seek_loop.simps)
next
  case (Cons a pre)
  have "seek_loop enc m out seen (text_of (a # pre) @ opn @ NL # rest)
      = seek_loop enc m (a @ [NL]) (seen @ [a @ [NL]]) (text_of pre @ opn @ NL # rest)"
    using Cons.prems by (subst seek_loop.simps) (simp add: text_of_def read_text_line)
  also have "\<dots> = (Inr (), (seen @ [a @ [NL]]) @ map (\<lambda>l. l @ [NL]) (pre @ [opn]), rest)"
    using Cons.prems by (intro Cons.IH) (auto simp: py_in_snoc)
  finally show ?case by simp
qed

lemma py_in_RC_snoc: "py_in ''<RC>'' (a @ [NL]) = py_in ''<RC>'' a"
  by (rule py_in_snoc) (simp_all add: NL_def)

lemma collect_body:
  assumes "\<forall>l\<in>set body. is_ascii l \<and> NL \<notin> set l \<and> \<not> py_in me l \<and> (py_in ''<RC>'' l \<longrightarrow> (\<exists>n. int_second l = Inr n))"
    "is_ascii cls" "NL \<notin> set cls" "py_in me cls" "NL \<notin> set me" "me \<noteq> []"
  shows "\<exists>rc'. (case read_text enc (text_of body @ cls @ NL # rest) of
                  (Inl e, s) \<Rightarrow> (Inl e, lines, s)
                | (Inr out, s) \<Rightarrow> collect_loop enc me out lines rc s)
          = (Inr rc', lines @ filter (\<lambda>l. \<not> py_in ''<RC>'' l) body, rest)
       \<and> (filter (py_in ''<RC>'') body = [] \<longrightarrow> rc' = rc)
       \<and> (filter (py_in ''<RC>'') body \<noteq> [] \<longrightarrow> int_second (last (filter (py_in ''<RC>'') body)) = Inr rc')"
  using assms
proof (induction body arbitrary: lines rc)
  case Nil
  then show ?case
    by (simp add: text_of_def read_text_line py_in_snoc collect_loop.simps)
next
  case (Cons a body)
  let ?tail = "text_of body @ cls @ NL # rest"
  have rl: "read_text enc (text_of (a # body) @ cls @ NL # rest) = (Inr (a @ [NL]), ?tail)"
    using Cons.prems read_text_line [of a enc ?tail] by (simp add: text_of_def)
  have nme: "\<not> py_in me (a @ [NL])" using Cons.prems by (simp add: py_in_snoc)
  have rest: "\<forall>l\<in>set body. is_ascii l \<and> NL \<notin> set l \<and> \<not> py_in me l \<and> (py_in ''<RC>'' l \<longrightarrow> (\<exists>n. int_second l = Inr n))"
    using Cons.prems by simp
  show ?case
  proof (cases "py_in ''<RC>'' a")
    case True
    then obtain n where n: "int_second a = Inr n" using Cons.prems by auto
    have step: "collect_loop enc me (a @ [NL]) lines rc ?tail
        = (case read_text enc ?tail of
             (Inl e, s') \<Rightarrow> (Inl e, lines, s')
           | (Inr out', s') \<Rightarrow> collect_loop enc me out' lines n s')"
      using nme True n by (subst collect_loop.simps) (simp add: py_in_RC_snoc int_second_snoc)
    from Cons.IH [OF rest Cons.prems(2-6), of lines n]
    obtain rc' where
      r: "(case read_text enc ?tail of
             (Inl e, s) \<Rightarrow> (Inl e, lines, s)
           | (Inr out, s) \<Rightarrow> collect_loop enc me out lines n s)
          = (Inr rc', lines @ filter (\<lambda>l. \<not> py_in ''<RC>'' l) body, rest)"
      and a1: "filter (py_in ''<RC>'') body = [] \<longrightarrow> rc' = n"
      and a2: "filter (py_in ''<RC>'') body \<noteq> [] \<longrightarrow> int_second (last (filter (py_in ''<RC>'') body)) = Inr rc'"
      by blast
    show ?thesis
      using rl step r a1 a2 True n by (intro exI [of _ rc']) simp
  next
    case False
    have step: "collect_loop enc me (a @ [NL]) lines rc ?tail
        = (case read_text enc ?tail of
             (Inl e, s') \<Rightarrow> (Inl e, lines @ [a], s')
           | (Inr out', s') \<Rightarrow> collect_loop enc me out' (lines @ [a]) rc s')"
      using nme False by (subst collect_loop.simps) (simp add: py_in_RC_snoc split: prod.splits sum.splits)
    from Cons.IH [OF rest Cons.prems(2-6), of "lines @ [a]" rc]
    obtain rc' where
      r: "(case read_text enc ?tail of
             (Inl e, s) \<Rightarrow> (Inl e, lines @ [a], s)
           | (Inr out, s) \<Rightarrow> collect_loop enc me out (lines @ [a]) rc s)
          = (Inr rc', (lines @ [a]) @ filter (\<lambda>l. \<not> py_in ''<RC>'' l) body, rest)"
      and a1: "filter (py_in ''<RC>'') body = [] \<longrightarrow> rc' = rc"
      and a2: "filter (py_in ''<RC>'') body \<noteq> [] \<longrightarrow> int_second (last (filter (py_in ''<RC>'') body)) = Inr rc'"
      by blast
    show ?thesis
      using rl step r a1 a2 False by (intro exI [of _ rc']) simp
  qed
qed

lemma text_of_append: "text_of (xs @ ys) = text_of xs @ text_of ys"
  by (simp add: text_of_def)


text \<open>
  Claim C2.  A frame on the pipe is any number of lines without the opening tag, a line
  with the opening tag, the body lines (none of them with the closing tag, every line with
  \<open><RC>\<close> carrying an integer as its second token and no longer than the 4300
  characters that bound the digits of \<open>int\<close> from Python 3.11 on), and a line with the
  closing tag, all of them ASCII text.  \<open>_parse_output\<close> then returns the body lines without
  \<open><RC>\<close>, in order and without their line feed, and the return code of the last
  \<open><RC>\<close> line, which is \<open>-1\<close> when there is none; the pipe is left just after the
  closing line.
\<close>

theorem parse_output_frame:
  assumes pre: "\<forall>l\<in>set pre. is_ascii l \<and> NL \<notin> set l \<and> \<not> py_in (''<'' @ marker @ ''>'') l"
    and opn: "is_ascii opn \<and> NL \<notin> set opn \<and> py_in (''<'' @ marker @ ''>'') opn"
    and body: "\<forall>l\<in>set body. is_ascii l \<and> NL \<notin> set l \<and> \<not> py_in (''</'' @ marker @ ''>'') l
                 \<and> (py_in ''<RC>'' l \<longrightarrow> length l \<le> 4300 \<and> (\<exists>n. int_second l = Inr n))"
    and cls: "is_ascii cls \<and> NL \<notin> set cls \<and> py_in (''</'' @ marker @ ''>'') cls"
    and marker: "NL \<notin> set marker"
    and g: "\<not> stdout_closed g \<and> stdout g = text_of (pre @ [opn] @ body @ [cls]) @ rest"
  shows "\<exists>rc. parse_output marker verb enc g =
            (Inr (filter (\<lambda>l. \<not> py_in ''<RC>'' l) body, rc),
             g\<lparr>stdout := rest,
               printed := printed g @ (if verb then filter (\<lambda>l. \<not> py_in ''<RC>'' l) body else [])\<rparr>)
          \<and> (filter (py_in ''<RC>'') body = [] \<longrightarrow> rc = - 1)
          \<and> (filter (py_in ''<RC>'') body \<noteq> [] \<longrightarrow>
                int_second (last (filter (py_in ''<RC>'') body)) = Inr rc)"
proof -
  let ?ms = "''<'' @ marker @ ''>''" and ?me = "''</'' @ marker @ ''>''"
  let ?s1 = "text_of body @ cls @ NL # rest"
  have nl: "NL \<notin> set ?ms" "NL \<notin> set ?me" using marker by (simp_all add: NL_def)
  have so: "stdout g = text_of pre @ opn @ NL # ?s1"
    using g by (simp add: text_of_def)
  have seek: "seek_loop enc ?ms [] [] (stdout g) = (Inr (), [] @ map (\<lambda>l. l @ [NL]) (pre @ [opn]), ?s1)"
    unfolding so using pre opn nl(1) by (intro seek_pre) simp_all
  have body': "\<forall>l\<in>set body. is_ascii l \<and> NL \<notin> set l \<and> \<not> py_in ?me l
                 \<and> (py_in ''<RC>'' l \<longrightarrow> (\<exists>n. int_second l = Inr n))"
    using body by blast
  from collect_body [where body=body and me="?me" and cls=cls and rest=rest and lines="[]" and rc="- 1"
      and enc=enc] body' cls nl(2)
  obtain rc where
    c: "(case read_text enc ?s1 of
           (Inl e, s) \<Rightarrow> (Inl e, [], s)
         | (Inr out, s) \<Rightarrow> collect_loop enc ?me out [] (- 1) s)
         = (Inr rc, [] @ filter (\<lambda>l. \<not> py_in ''<RC>'' l) body, rest)"
    and r1: "filter (py_in ''<RC>'') body = [] \<longrightarrow> rc = - 1"
    and r2: "filter (py_in ''<RC>'') body \<noteq> [] \<longrightarrow> int_second (last (filter (py_in ''<RC>'') body)) = Inr rc"
    by auto
  from c obtain out s2 where rt: "read_text enc ?s1 = (Inr out, s2)"
    and cl: "collect_loop enc ?me out [] (- 1) s2 = (Inr rc, filter (\<lambda>l. \<not> py_in ''<RC>'' l) body, rest)"
    by (auto split: prod.splits sum.splits)
  have "parse_output marker verb enc g =
            (Inr (filter (\<lambda>l. \<not> py_in ''<RC>'' l) body, rc),
             g\<lparr>stdout := rest,
               printed := printed g @ (if verb then filter (\<lambda>l. \<not> py_in ''<RC>'' l) body else [])\<rparr>)"
    using g seek rt cl unfolding parse_output_def by simp
  with r1 r2 show ?thesis by blast
qed

theorem parse_output_frame_witness:
  "parse_output ''IPC'' True Utf8
     \<lparr>verbose = True, stdin = [], stdout = ''GrADS banner\<newline><IPC>\<newline>L1\<newline>L2\<newline><RC> 7\<newline></IPC>\<newline>more'',
      stdin_closed = False, stdin_broken = False, stdout_closed = False, printed = []\<rparr>
   = (Inr ([''L1'', ''L2''], 7),
      \<lparr>verbose = True, stdin = [], stdout = ''more'',
       stdin_closed = False, stdin_broken = False, stdout_closed = False, printed = [''L1'', ''L2'']\<rparr>)
   \<and> parse_output ''IPC'' False Utf8
     \<lparr>verbose = True, stdin = [], stdout = ''<IPC>\<newline>L1\<newline>L2\<newline></IPC>\<newline>'',
      stdin_closed = False, stdin_broken = False, stdout_closed = False, printed = []\<rparr>
   = (Inr ([''L1'', ''L2''], - 1),
      \<lparr>verbose = True, stdin = [], stdout = [],
       stdin_closed = False, stdin_broken = False, stdout_closed = False, printed = []\<rparr>)"
proof -
  have rc7: "int_second ''<RC> 7'' = Inr 7"
    by (simp add: int_second_def py_split_def isspace_def item_def sbind_def isdigit_def digit_val_def)
  have a: "\<exists>rc. parse_output ''IPC'' True Utf8
     \<lparr>verbose = True, stdin = [], stdout = ''GrADS banner\<newline><IPC>\<newline>L1\<newline>L2\<newline><RC> 7\<newline></IPC>\<newline>more'',
      stdin_closed = False, stdin_broken = False, stdout_closed = False, printed = []\<rparr>
   = (Inr ([''L1'', ''L2''], rc),
      \<lparr>verbose = True, stdin = [], stdout = ''more'',
       stdin_closed = False, stdin_broken = False, stdout_closed = False, printed = [''L1'', ''L2'']\<rparr>)
     \<and> int_second ''<RC> 7'' = Inr rc"
    using parse_output_frame [of "[''GrADS banner'']" "''IPC''" "''<IPC>''" "[''L1'', ''L2'', ''<RC> 7'']"
        "''</IPC>''" _ "''more''" True Utf8]
    by (simp add: rc7 text_of_def NL_def is_ascii_def)
  have b: "parse_output ''IPC'' False Utf8
     \<lparr>verbose = True, stdin = [], stdout = ''<IPC>\<newline>L1\<newline>L2\<newline></IPC>\<newline>'',
      stdin_closed = False, stdin_broken = False, stdout_closed = False, printed = []\<rparr>
   = (Inr ([''L1'', ''L2''], - 1),
      \<lparr>verbose = True, stdin = [], stdout = [],
       stdin_closed = False, stdin_broken = False, stdout_closed = False, printed = []\<rparr>)"
    using parse_output_frame [of "[]" "''IPC''" "''<IPC>''" "[''L1'', ''L2'']"
        "''</IPC>''" _ "[]" False Utf8]
    by (simp add: text_of_def NL_def is_ascii_def)
  from a b show ?thesis by (auto simp: rc7)
qed

text \<open>The line \<open><RC> n\<close> of a frame: its second token is the text of \<open>n\<close>.\<close>

lemma split_ws_word:
  "\<forall>c\<in>set tok. \<not> isspace c \<Longrightarrow> split_ws w tok = (if w @ tok = [] then [] else [w @ tok])"
  by (induction tok arbitrary: w) auto

lemma int_second_RC:
  "\<forall>c\<in>set tok. \<not> isspace c \<Longrightarrow> tok \<noteq> [] \<Longrightarrow> int_second (''<RC> '' @ tok) = py_int tok"
  by (simp add: int_second_def py_split_def isspace_def split_ws_word item_def sbind_def)

subsection \<open>Commands and teardown\<close>

lemma parse_output_stdin: "stdin (snd (parse_output marker verb enc g)) = stdin g"
  by (simp add: parse_output_def split: prod.splits sum.splits)

lemma last_terminated: "last (terminated gacmd) = NL"
  by (simp add: terminated_def)

lemma terminated_nonempty: "gacmd \<noteq> [] \<Longrightarrow> terminated gacmd \<noteq> []"
  by (simp add: terminated_def)

text \<open>
  Claim C10.  \<open>cmd\<close> on the empty command fails on \<open>gacmd[-1]\<close> with
  \<open>IndexError\<close> and leaves the session as it was: nothing is written.  For a command
  that is not empty, a line feed is appended exactly when the command does not end in
  one, so the text to write ends in a line feed, and so do its bytes; on a pipe that can
  be written, exactly these bytes are appended to the input of the process.  For an
  ASCII command the bytes are the text.
\<close>

theorem cmd_terminator:
  "cmd [] verb block g = (Inl IndexError, g) \<and>
   (gacmd \<noteq> [] \<longrightarrow>
      terminated gacmd = (if last gacmd = NL then gacmd else gacmd @ [NL]) \<and>
      last (terminated gacmd) = NL \<and>
      last (encode_utf8 (terminated gacmd)) = NL \<and>
      (is_ascii gacmd \<longrightarrow> encode_utf8 (terminated gacmd) = terminated gacmd) \<and>
      (\<not> stdin_closed g \<and> \<not> stdin_broken g \<longrightarrow>
         stdin (snd (cmd gacmd verb block g)) = stdin g @ encode_utf8 (terminated gacmd)))"
proof -
  have e: "cmd [] verb block g = (Inl IndexError, g)"
    by (simp add: cmd_def)
  have w: "stdin (snd (cmd gacmd verb block g)) = stdin g @ encode_utf8 (terminated gacmd)"
    if "gacmd \<noteq> []" "\<not> stdin_closed g" "\<not> stdin_broken g"
  proof -
    let ?g1 = "g\<lparr>stdin := stdin g @ encode_utf8 (terminated gacmd)\<rparr>"
    show ?thesis
    proof (cases block)
      case False
      then show ?thesis using that by (simp add: cmd_def io_bind_def write_stdin_def)
    next
      case True
      obtain r g2 where p: "parse_output ''IPC'' (if verb then verbose ?g1 else False) Utf8 ?g1 = (r, g2)"
        by (cases "parse_output ''IPC'' (if verb then verbose ?g1 else False) Utf8 ?g1")
      have "stdin g2 = stdin ?g1"
        using parse_output_stdin [of "''IPC''" "if verb then verbose ?g1 else False" Utf8 ?g1] p by simp
      then show ?thesis
        using that True p by (simp add: cmd_def io_bind_def write_stdin_def split: sum.splits prod.splits)
    qed
  qed
  have l: "last (encode_utf8 (terminated gacmd)) = NL" if "gacmd \<noteq> []"
    using last_encode_utf8 [OF terminated_nonempty [OF that] last_terminated] .
  have a: "encode_utf8 (terminated gacmd) = terminated gacmd" if "is_ascii gacmd"
    using that by (intro encode_utf8_ascii) (simp add: terminated_def is_ascii_def NL_def)
  show ?thesis using e w l a by (simp add: terminated_def)
qed

theorem cmd_terminator_witness:
  "cmd ''q dims'' False False
     \<lparr>verbose = True, stdin = ''x'', stdout = [],
      stdin_closed = False, stdin_broken = False, stdout_closed = False, printed = []\<rparr>
   = (Inr ([], 0),
      \<lparr>verbose = True, stdin = ''xq dims\<newline>'', stdout = [],
      stdin_closed = False, stdin_broken = False, stdout_closed = False, printed = []\<rparr>)
   \<and> terminated ''q dims\<newline>'' = ''q dims\<newline>''"
proof -
  let ?g = "\<lparr>verbose = True, stdin = ''x'', stdout = [],
      stdin_closed = False, stdin_broken = False, stdout_closed = False, printed = []\<rparr>"
  have t: "terminated ''q dims'' = ''q dims\<newline>''"
    by (simp add: terminated_def NL_def)
  have asc: "is_ascii ''q dims''"
    by (simp add: is_ascii_def)
  have ne: "''q dims'' \<noteq> []" and op: "\<not> stdin_closed ?g \<and> \<not> stdin_broken ?g" and sx: "stdin ?g = ''x''"
    by simp_all
  have "stdin (snd (cmd ''q dims'' False False ?g)) = stdin ?g @ encode_utf8 (terminated ''q dims'')
     \<and> encode_utf8 (terminated ''q dims'') = terminated ''q dims''"
    using cmd_terminator [of False False ?g "''q dims''"] asc ne op by blast
  then have st: "stdin (snd (cmd ''q dims'' False False ?g)) = ''xq dims\<newline>''"
    by (simp add: t)
  have en: "encode_utf8 ''q dims\<newline>'' = ''q dims\<newline>''"
    by (simp add: encode_utf8_def)
  have c: "cmd ''q dims'' False False ?g = (Inr ([], 0), ?g\<lparr>stdin := ''xq dims\<newline>''\<rparr>)"
    by (simp add: cmd_def io_bind_def write_stdin_def t en)
  have ne2: "''q dims\<newline>'' \<noteq> []" by simp
  have t2: "terminated ''q dims\<newline>'' = (if last ''q dims\<newline>'' = NL then ''q dims\<newline>'' else ''q dims\<newline>'' @ [NL])"
    using cmd_terminator [of False False ?g "''q dims\<newline>''"] ne2 by blast
  have "last ''q dims\<newline>'' = NL" by (simp add: NL_def)
  with t2 c st show ?thesis by simp
qed

text \<open>
  Claim C6.  In a blocking \<open>cmd\<close>, once the command is written and
  \<open>_parse_output\<close> has returned lines whose join with line feeds contains
  \<open>Syntax Error\<close>, the call raises \<open>GrADSError\<close> with the command in its message,
  whatever return code was read.
\<close>

theorem cmd_syntax_error:
  assumes "gacmd \<noteq> []"
    and "write_stdin (encode_utf8 (terminated gacmd)) g = (Inr (), g1)"
    and "parse_output ''IPC'' (verb \<and> verbose g1) Utf8 g1 = (Inr (outlines, rc), g2)"
    and "py_in ''Syntax Error'' (py_join [NL] outlines)"
  shows "cmd gacmd verb True g =
           (Inl (GrADSError (''Syntax Error while evaluating '' @ terminated gacmd)), g2)"
proof -
  have "(if verb then verbose g1 else False) = (verb \<and> verbose g1)" by simp
  then show ?thesis
    using assms by (simp add: cmd_def io_bind_def)
qed

lemma example_line_ascii:
  "is_ascii ''<IPC>\<newline>''" "is_ascii ''Syntax Error: bad\<newline>''" "is_ascii ''<RC> 0\<newline>''"
  "is_ascii ''</IPC>\<newline>''"
  by (simp_all add: is_ascii_def)

theorem cmd_syntax_error_witness:
  "cmd ''foo'' True True
     \<lparr>verbose = False, stdin = [], stdout = ''<IPC>\<newline>Syntax Error: bad\<newline><RC> 0\<newline></IPC>\<newline>'',
      stdin_closed = False, stdin_broken = False, stdout_closed = False, printed = []\<rparr>
   = (Inl (GrADSError ''Syntax Error while evaluating foo\<newline>''),
      \<lparr>verbose = False, stdin = ''foo\<newline>'', stdout = [],
      stdin_closed = False, stdin_broken = False, stdout_closed = False, printed = []\<rparr>)"
proof -
  let ?g = "\<lparr>verbose = False, stdin = [], stdout = ''<IPC>\<newline>Syntax Error: bad\<newline><RC> 0\<newline></IPC>\<newline>'',
      stdin_closed = False, stdin_broken = False, stdout_closed = False, printed = []\<rparr>"
  let ?g1 = "\<lparr>verbose = False, stdin = ''foo\<newline>'', stdout = ''<IPC>\<newline>Syntax Error: bad\<newline><RC> 0\<newline></IPC>\<newline>'',
      stdin_closed = False, stdin_broken = False, stdout_closed = False, printed = []\<rparr>"
  let ?g2 = "\<lparr>verbose = False, stdin = ''foo\<newline>'', stdout = [],
      stdin_closed = False, stdin_broken = False, stdout_closed = False, printed = []\<rparr>"
  have t: "terminated ''foo'' = ''foo\<newline>''"
    by (simp add: terminated_def NL_def)
  have en: "encode_utf8 ''foo\<newline>'' = ''foo\<newline>''"
    by (simp add: encode_utf8_def)
  have w: "write_stdin (encode_utf8 (terminated ''foo'')) ?g = (Inr (), ?g1)"
    by (simp add: write_stdin_def t en)
  have p: "parse_output ''IPC'' (True \<and> verbose ?g1) Utf8 ?g1 = (Inr ([''Syntax Error: bad''], 0), ?g2)"
    by code_simp
  have s: "py_in ''Syntax Error'' (py_join [NL] [''Syntax Error: bad''])"
    by simp
  show ?thesis
    using cmd_syntax_error [OF _ w p s] by (simp add: t)
qed

text \<open>\<open>__del__\<close> returns normally in every state of the session.  When \<open>cmd('quit')\<close>
  returns, both pipes are closed afterwards; when it raises, the exception is dropped and
  the session stays as \<open>cmd\<close> left it.\<close>

lemma del_never_raises:
  "fst (del g) = Inr () \<and>
   (\<forall>r g1. cmd ''quit'' True True g = (Inr r, g1) \<longrightarrow>
      snd (del g) = g1\<lparr>stdin_closed := True, stdout_closed := True\<rparr>) \<and>
   (\<forall>e g1. cmd ''quit'' True True g = (Inl e, g1) \<longrightarrow> snd (del g) = g1)"
  by (auto simp: del_def try_pass_def io_bind_def close_stdin_def close_stdout_def
           split: prod.splits sum.splits)

lemma del_closes_after_quit:
  "del \<lparr>verbose = False, stdin = [], stdout = ''<IPC>\<newline><RC> 0\<newline></IPC>\<newline>'',
        stdin_closed = False, stdin_broken = False, stdout_closed = False, printed = []\<rparr>
   = (Inr (), \<lparr>verbose = False, stdin = ''quit\<newline>'', stdout = [],
        stdin_closed = True, stdin_broken = False, stdout_closed = True, printed = []\<rparr>)"
  by code_simp

text \<open>
  Claim C9, at the states where the code departs from it.  In the first state the
  process has gone already: the write of \<open>quit\<close> raises.  In the second the process
  ends on \<open>quit\<close> without a reply: \<open>_parse_output\<close> raises.  Either exception is
  dropped and \<open>__del__\<close> returns, but neither \<open>close()\<close> has been called: both pipes
  are still open.
\<close>

theorem del_skips_close:
  "del \<lparr>verbose = False, stdin = [], stdout = [],
        stdin_closed = False, stdin_broken = True, stdout_closed = False, printed = []\<rparr>
   = (Inr (), \<lparr>verbose = False, stdin = [], stdout = [],
        stdin_closed = False, stdin_broken = True, stdout_closed = False, printed = []\<rparr>)
   \<and> del \<lparr>verbose = False, stdin = [], stdout = [],
        stdin_closed = False, stdin_broken = False, stdout_closed = False, printed = []\<rparr>
   = (Inr (), \<lparr>verbose = False, stdin = ''quit\<newline>'', stdout = [],
        stdin_closed = False, stdin_broken = False, stdout_closed = False, printed = []\<rparr>)"
  by code_simp

subsection \<open>The raw payload reader\<close>

text \<open>One turn of the loop.  When a chunk holds the terminator, the bytes kept from it
  are those before the first occurrence: a bare \<open><RC>\<close> earlier in the chunk stays in the
  payload.\<close>

lemma startswith_append: "startswith m s \<Longrightarrow> \<exists>r. s = m @ r"
  by (induction m s rule: startswith.induct) auto

lemma split_first_marker:
  "py_in m c \<Longrightarrow> m \<noteq> [] \<Longrightarrow> \<exists>r. c = split_first m c @ m @ r"
proof (induction c)
  case Nil
  then show ?case by simp
next
  case (Cons a c)
  show ?case
  proof (cases "startswith m (a # c)")
    case True
    then show ?thesis using startswith_append [of m "a # c"] by simp
  next
    case False
    with Cons.prems have "py_in m c" by simp
    from Cons.IH [OF this Cons.prems(2)] obtain r where "split_first m c @ m @ r = c" by metis
    with False show ?thesis by (simp, metis)
  qed
qed

lemma read_raw_found:
  "py_in (NL # ''<RC>'') (take chsize s) \<Longrightarrow>
     read_raw h s = Some (h @ split_first (NL # ''<RC>'') (take chsize s), drop chsize s)"
  by (subst read_raw.simps) simp

lemma read_raw_next:
  "\<not> py_in (NL # ''<RC>'') (take chsize s) \<Longrightarrow>
     read_raw h s = read_raw (h @ take chsize s) (drop chsize s)"
  by (subst read_raw.simps) simp

text \<open>At the end of the output the loop never returns.\<close>

lemma read_raw_Some_nonempty:
  assumes "read_raw h s = Some r"
  shows "s \<noteq> []"
proof (rule read_raw.raw_induct [where P = "\<lambda>h s r. s \<noteq> []", OF _ assms], rule notI)
  fix rr :: "string \<Rightarrow> string \<Rightarrow> (string \<times> string) option" and h' s' :: string and r' :: "string \<times> string"
  assume IH: "\<And>a b y. rr a b = Some y \<Longrightarrow> b \<noteq> []"
    and st: "(let chunk = take chsize s'; s'' = drop chsize s'
              in if py_in (NL # ''<RC>'') chunk
                 then Some (h' @ split_first (NL # ''<RC>'') chunk, s'')
                 else rr (h' @ chunk) s'') = Some r'"
    and e: "s' = []"
  from st e have "rr h' [] = Some r'" by simp
  with IH show False by blast
qed

lemma read_raw_eof: "read_raw h [] = None"
  using read_raw_Some_nonempty [of h "[]"] by (cases "read_raw h []") auto

lemma py_in_replicate:
  "c \<noteq> m \<Longrightarrow> py_in (m # ms) (replicate n c @ t) = py_in (m # ms) t"
  by (induction n) auto

text \<open>
  Claim C1, at an input where the code departs from it.  The payload is 1023 values of
  four bytes, followed by the line feed, \<open><RC> 0\<close> and the closing tag.  The first
  read of 4096 bytes ends inside the terminator, after \<open><RC\<close>; neither that chunk nor
  the next contains the terminator, so the payload is never returned: the loop reads on
  at the end of the output and does not come back.
\<close>

theorem read_raw_straddle:
  "read_raw [] (replicate 4092 (CHR 0x00) @ NL # ''<RC> 0'' @ NL # ''</IPC>'' @ [NL]) = None"
proof -
  let ?s = "replicate 4092 (CHR 0x00) @ NL # ''<RC> 0'' @ NL # ''</IPC>'' @ [NL]"
  have c1: "take chsize ?s = replicate 4092 (CHR 0x00) @ NL # ''<RC''"
    by (simp add: chsize_def)
  have d1: "drop chsize ?s = ''> 0'' @ NL # ''</IPC>'' @ [NL]"
    by (simp add: chsize_def)
  have n1: "\<not> py_in (NL # ''<RC>'') (replicate 4092 (CHR 0x00) @ NL # ''<RC'')"
    by (subst py_in_replicate) (simp_all add: NL_def)
  have s1: "read_raw [] ?s = read_raw (replicate 4092 (CHR 0x00) @ NL # ''<RC'') (''> 0'' @ NL # ''</IPC>'' @ [NL])"
    by (subst read_raw.simps) (simp only: c1 d1 n1 Let_def if_False append_Nil)
  have s2: "read_raw h (''> 0'' @ NL # ''</IPC>'' @ [NL]) = read_raw (h @ ''> 0'' @ NL # ''</IPC>'' @ [NL]) []" for h
    by (subst read_raw.simps) (simp add: chsize_def NL_def)
  show ?thesis
    by (simp only: s1 s2 read_raw_eof)
qed

subsection \<open>The shape of the exported grid\<close>

lemma possible_sizes_list:
  "possible_sizes a b =
     [((a - 2, b), (a - 2) * b), ((a - 1, b), (a - 1) * b), ((a, b), a * b),
      ((a + 1, b), (a + 1) * b), ((a + 2, b), (a + 2) * b),
      ((a, b - 2), a * (b - 2)), ((a, b - 1), a * (b - 1)), ((a, b), a * b),
      ((a, b + 1), a * (b + 1)), ((a, b + 2), a * (b + 2))]"
  by (simp add: possible_sizes_def)

lemma index_of_find:
  "v \<in> set (map snd ps) \<Longrightarrow>
     find (\<lambda>p. snd p = v) ps = Some (ps ! index_of (map snd ps) v)"
  by (induction ps) (auto simp: index_of_def)

lemma find_None_sizes: "v \<notin> set (map snd ps) \<Longrightarrow> find (\<lambda>p. snd p = v) ps = None"
  by (induction ps) auto

lemma index_of_less: "v \<in> set xs \<Longrightarrow> index_of xs v < length xs"
  by (induction xs) (auto simp: index_of_def)

lemma resolve_shape_find:
  "resolve_shape expr a b p =
     (case fromstring p of
        Inl e \<Rightarrow> Inl (PygradsError (''Problems occurred while exporting GrADS expression: '' @ expr))
      | Inr arr \<Rightarrow>
         (case find (\<lambda>q. snd q = int (length arr)) (possible_sizes a b) of
            None \<Rightarrow> Inl (PygradsError (''Problems occurred while exporting GrADS expression: '' @ expr))
          | Some q \<Rightarrow> Inr (arr, fst q)))"
proof (cases "fromstring p")
  case (Inl e)
  then show ?thesis by (simp add: resolve_shape_def)
next
  case (Inr arr)
  show ?thesis
  proof (cases "int (length arr) \<in> set (map snd (possible_sizes a b))")
    case True
    from index_of_find [OF True] index_of_less [OF True] Inr True show ?thesis
      by (simp add: resolve_shape_def Let_def)
  next
    case False
    from find_None_sizes [OF False] Inr False show ?thesis
      by (simp add: resolve_shape_def Let_def)
  qed
qed


lemma fromstring_length: "fromstring p = Inr arr \<Longrightarrow> length arr = length p div 4"
  by (auto simp: fromstring_def split: if_splits)

lemma find_cong_pred: "(\<And>x. x \<in> set xs \<Longrightarrow> P x = Q x) \<Longrightarrow> find P xs = find Q xs"
  by (induction xs) auto

text \<open>
  Claim C3, as the code has it.  A payload whose length is not a multiple of four, or
  whose number of values is the product of no candidate shape, raises the
  \<open>PygradsError\<close> of the export.  Otherwise the shape is the first candidate, in the
  order \<open>x\<close> offsets \<open>-2 .. 2\<close> then \<open>y\<close> offsets \<open>-2 .. 2\<close>, whose product is
  the number of values.  That is the nominal shape when the number of values is
  \<open>nx * ny\<close> and \<open>ny\<close> is not zero.
\<close>

theorem resolve_shape_first_match:
  "(length p mod 4 \<noteq> 0 \<longrightarrow>
      resolve_shape expr a b p =
        Inl (PygradsError (''Problems occurred while exporting GrADS expression: '' @ expr))) \<and>
   (length p mod 4 = 0 \<longrightarrow>
      (\<exists>arr. fromstring p = Inr arr \<and> length arr = length p div 4 \<and>
         resolve_shape expr a b p =
           (case find (\<lambda>(a', b'). a' * b' = int (length p div 4))
                   [(a - 2, b), (a - 1, b), (a, b), (a + 1, b), (a + 2, b),
                    (a, b - 2), (a, b - 1), (a, b), (a, b + 1), (a, b + 2)] of
              None \<Rightarrow> Inl (PygradsError (''Problems occurred while exporting GrADS expression: '' @ expr))
            | Some sh \<Rightarrow> Inr (arr, sh)))) \<and>
   (length p mod 4 = 0 \<and> int (length p div 4) = a * b \<and> b \<noteq> 0 \<longrightarrow>
      map_sum id snd (resolve_shape expr a b p) = Inr (a, b))"
proof (intro conjI impI)
  assume "length p mod 4 \<noteq> 0"
  then show "resolve_shape expr a b p =
        Inl (PygradsError (''Problems occurred while exporting GrADS expression: '' @ expr))"
    by (simp add: resolve_shape_find fromstring_def)
next
  assume m: "length p mod 4 = 0"
  then obtain arr where arr: "fromstring p = Inr arr" by (simp add: fromstring_def)
  have len: "length arr = length p div 4" using arr by (rule fromstring_length)
  have "resolve_shape expr a b p =
           (case find (\<lambda>(a', b'). a' * b' = int (length p div 4))
                   [(a - 2, b), (a - 1, b), (a, b), (a + 1, b), (a + 2, b),
                    (a, b - 2), (a, b - 1), (a, b), (a, b + 1), (a, b + 2)] of
              None \<Rightarrow> Inl (PygradsError (''Problems occurred while exporting GrADS expression: '' @ expr))
            | Some sh \<Rightarrow> Inr (arr, sh))"
    by (simp add: resolve_shape_find arr len possible_sizes_list)
  with arr len show "\<exists>arr. fromstring p = Inr arr \<and> length arr = length p div 4 \<and>
         resolve_shape expr a b p =
           (case find (\<lambda>(a', b'). a' * b' = int (length p div 4))
                   [(a - 2, b), (a - 1, b), (a, b), (a + 1, b), (a + 2, b),
                    (a, b - 2), (a, b - 1), (a, b), (a, b + 1), (a, b + 2)] of
              None \<Rightarrow> Inl (PygradsError (''Problems occurred while exporting GrADS expression: '' @ expr))
            | Some sh \<Rightarrow> Inr (arr, sh))"
    by blast
next
  assume h: "length p mod 4 = 0 \<and> int (length p div 4) = a * b \<and> b \<noteq> 0"
  then obtain arr where arr: "fromstring p = Inr arr" by (simp add: fromstring_def)
  have len: "int (length arr) = a * b" using fromstring_length [OF arr] h by simp
  have n2: "(a - 2) * b \<noteq> a * b" using h by (simp add: algebra_simps)
  have n1: "(a - 1) * b \<noteq> a * b" using h by (simp add: algebra_simps)
  show "map_sum id snd (resolve_shape expr a b p) = Inr (a, b)"
    using n1 n2 by (simp add: resolve_shape_find arr len possible_sizes_list)
qed

theorem resolve_shape_first_match_witness:
  "resolve_shape ''t'' 3 2 (replicate 24 (CHR 0x00))
     = Inr (replicate 6 (replicate 4 (CHR 0x00)), (3, 2))
   \<and> resolve_shape ''t'' 3 2 (replicate 5 (CHR 0x00))
     = Inl (PygradsError ''Problems occurred while exporting GrADS expression: t'')"
proof -
  have f: "fromstring (replicate 24 (CHR 0x00)) = Inr (replicate 6 (replicate 4 (CHR 0x00)))"
    by code_simp
  show ?thesis
    using resolve_shape_first_match [of "replicate 24 (CHR 0x00)" "''t''" 3 2]
      resolve_shape_first_match [of "replicate 5 (CHR 0x00)" "''t''" 3 2]
    by (simp add: f)
qed

text \<open>
  Claim C3 as stated fails.  With nominal shape \<open>(4, 2)\<close> and four values the shape
  chosen is \<open>(2, 2)\<close>, two steps from the nominal one, although \<open>(4, 1)\<close>, one step
  away, is a candidate with four values too: the first match wins, not the nearest.
  With nominal shape \<open>(5, 0)\<close> and no values the shape chosen is \<open>(3, 0)\<close>, not the
  nominal one.
\<close>

theorem resolve_shape_counterexample:
  "map_sum id snd (resolve_shape ''t'' 4 2 (replicate 16 (CHR 0x00))) = Inr (2, 2)
   \<and> ((4, 1), 4) \<in> set (possible_sizes 4 2)
   \<and> map_sum id snd (resolve_shape ''t'' 5 0 []) = Inr (3, 0)"
  by (simp add: resolve_shape_find fromstring_def possible_sizes_list)

subsection \<open>The file descriptor query\<close>

lemma sbind_Inr_iff: "(sbind m f = Inr y) = (\<exists>a. m = Inr a \<and> f a = Inr y)"
  by (cases m) (simp_all add: sbind_def)

lemma ctl_scan_Nx:
  "ctl_scan ls c0 = Inr c \<Longrightarrow>
     map_option Inr (Nx c) =
       (if filter (either_in ''xdef '' ''XDEF '') ls = [] then map_option Inr (Nx c0)
        else Some (int_second (last (filter (either_in ''xdef '' ''XDEF '') ls))))"
proof (induction ls arbitrary: c0)
  case Nil
  then show ?case by simp
next
  case (Cons l ls)
  show ?case
  proof (cases "either_in ''xdef '' ''XDEF '' l")
    case True
    with Cons.prems obtain n where n: "int_second l = Inr n"
      and r: "ctl_scan ls (c0\<lparr>Nx := Some n\<rparr>) = Inr c"
      by (auto simp: sbind_Inr_iff)
    from Cons.IH [OF r] True n show ?thesis by simp
  next
    case False
    with Cons.prems obtain c1 where r: "ctl_scan ls c1 = Inr c" and k: "Nx c1 = Nx c0"
      by (auto simp: sbind_Inr_iff split: if_splits)
    from Cons.IH [OF r] False k show ?thesis by auto
  qed
qed


lemma ctl_scan_Ny:
  "ctl_scan ls c0 = Inr c \<Longrightarrow>
     map_option Inr (Ny c) =
       (if filter (\<lambda>l. \<not> either_in ''xdef '' ''XDEF '' l \<and> either_in ''ydef '' ''YDEF '' l) ls = [] then map_option Inr (Ny c0)
        else Some (int_second (last (filter (\<lambda>l. \<not> either_in ''xdef '' ''XDEF '' l \<and> either_in ''ydef '' ''YDEF '' l) ls))))"
proof (induction ls arbitrary: c0)
  case Nil
  then show ?case by simp
next
  case (Cons l ls)
  show ?case
  proof (cases "(\<lambda>l. \<not> either_in ''xdef '' ''XDEF '' l \<and> either_in ''ydef '' ''YDEF '' l) l")
    case True
    with Cons.prems obtain n where n: "int_second l = Inr n"
      and r: "ctl_scan ls (c0\<lparr>Ny := Some n\<rparr>) = Inr c"
      by (auto simp: sbind_Inr_iff)
    from Cons.IH [OF r] True n show ?thesis by simp
  next
    case False
    with Cons.prems obtain c1 where r: "ctl_scan ls c1 = Inr c" and k: "Ny c1 = Ny c0"
      by (auto simp: sbind_Inr_iff split: if_splits)
    from Cons.IH [OF r] False k show ?thesis by auto
  qed
qed

lemma ctl_scan_Nz:
  "ctl_scan ls c0 = Inr c \<Longrightarrow>
     map_option Inr (Nz c) =
       (if filter (\<lambda>l. \<not> either_in ''xdef '' ''XDEF '' l \<and> \<not> either_in ''ydef '' ''YDEF '' l \<and> either_in ''zdef '' ''ZDEF '' l) ls = [] then map_option Inr (Nz c0)
        else Some (int_second (last (filter (\<lambda>l. \<not> either_in ''xdef '' ''XDEF '' l \<and> \<not> either_in ''ydef '' ''YDEF '' l \<and> either_in ''zdef '' ''ZDEF '' l) ls))))"
proof (induction ls arbitrary: c0)
  case Nil
  then show ?case by simp
next
  case (Cons l ls)
  show ?case
  proof (cases "(\<lambda>l. \<not> either_in ''xdef '' ''XDEF '' l \<and> \<not> either_in ''ydef '' ''YDEF '' l \<and> either_in ''zdef '' ''ZDEF '' l) l")
    case True
    with Cons.prems obtain n where n: "int_second l = Inr n"
      and r: "ctl_scan ls (c0\<lparr>Nz := Some n\<rparr>) = Inr c"
      by (auto simp: sbind_Inr_iff)
    from Cons.IH [OF r] True n show ?thesis by simp
  next
    case False
    with Cons.prems obtain c1 where r: "ctl_scan ls c1 = Inr c" and k: "Nz c1 = Nz c0"
      by (auto simp: sbind_Inr_iff split: if_splits)
    from Cons.IH [OF r] False k show ?thesis by auto
  qed
qed

lemma ctl_scan_Nt:
  "ctl_scan ls c0 = Inr c \<Longrightarrow>
     map_option Inr (Nt c) =
       (if filter (\<lambda>l. \<not> either_in ''xdef '' ''XDEF '' l \<and> \<not> either_in ''ydef '' ''YDEF '' l \<and> \<not> either_in ''zdef '' ''ZDEF '' l \<and> either_in ''tdef '' ''TDEF '' l) ls = [] then map_option Inr (Nt c0)
        else Some (int_second (last (filter (\<lambda>l. \<not> either_in ''xdef '' ''XDEF '' l \<and> \<not> either_in ''ydef '' ''YDEF '' l \<and> \<not> either_in ''zdef '' ''ZDEF '' l \<and> either_in ''tdef '' ''TDEF '' l) ls))))"
proof (induction ls arbitrary: c0)
  case Nil
  then show ?case by simp
next
  case (Cons l ls)
  show ?case
  proof (cases "(\<lambda>l. \<not> either_in ''xdef '' ''XDEF '' l \<and> \<not> either_in ''ydef '' ''YDEF '' l \<and> \<not> either_in ''zdef '' ''ZDEF '' l \<and> either_in ''tdef '' ''TDEF '' l) l")
    case True
    with Cons.prems obtain n where n: "int_second l = Inr n"
      and r: "ctl_scan ls (c0\<lparr>Nt := Some n\<rparr>) = Inr c"
      by (auto simp: sbind_Inr_iff)
    from Cons.IH [OF r] True n show ?thesis by simp
  next
    case False
    with Cons.prems obtain c1 where r: "ctl_scan ls c1 = Inr c" and k: "Nt c1 = Nt c0"
      by (auto simp: sbind_Inr_iff split: if_splits)
    from Cons.IH [OF r] False k show ?thesis by auto
  qed
qed

lemma ctl_scan_Ne:
  "ctl_scan ls c0 = Inr c \<Longrightarrow>
     Inr (Ne c) =
       (if filter (\<lambda>l. \<not> either_in ''xdef '' ''XDEF '' l \<and> \<not> either_in ''ydef '' ''YDEF '' l \<and> \<not> either_in ''zdef '' ''ZDEF '' l \<and> \<not> either_in ''tdef '' ''TDEF '' l \<and> either_in ''edef '' ''EDEF '' l) ls = [] then Inr (Ne c0)
        else int_second (last (filter (\<lambda>l. \<not> either_in ''xdef '' ''XDEF '' l \<and> \<not> either_in ''ydef '' ''YDEF '' l \<and> \<not> either_in ''zdef '' ''ZDEF '' l \<and> \<not> either_in ''tdef '' ''TDEF '' l \<and> either_in ''edef '' ''EDEF '' l) ls)))"
proof (induction ls arbitrary: c0)
  case Nil
  then show ?case by simp
next
  case (Cons l ls)
  show ?case
  proof (cases "(\<lambda>l. \<not> either_in ''xdef '' ''XDEF '' l \<and> \<not> either_in ''ydef '' ''YDEF '' l \<and> \<not> either_in ''zdef '' ''ZDEF '' l \<and> \<not> either_in ''tdef '' ''TDEF '' l \<and> either_in ''edef '' ''EDEF '' l) l")
    case True
    with Cons.prems obtain n where n: "int_second l = Inr n"
      and r: "ctl_scan ls (c0\<lparr>Ne := n\<rparr>) = Inr c"
      by (auto simp: sbind_Inr_iff)
    from Cons.IH [OF r] True n show ?thesis by simp
  next
    case False
    with Cons.prems obtain c1 where r: "ctl_scan ls c1 = Inr c" and k: "Ne c1 = Ne c0"
      by (auto simp: sbind_Inr_iff split: if_splits)
    from Cons.IH [OF r] False k show ?thesis by auto
  qed
qed

text \<open>
  Claim C8, as the code has it.  A line belongs to the first of the keywords
  \<open>xdef\<close>, \<open>ydef\<close>, \<open>zdef\<close>, \<open>tdef\<close>, \<open>edef\<close> that it contains in lower case
  or in upper case, followed by a blank.  After a scan that succeeds, each total length
  is the integer second token of the last line of its keyword; \<open>Nx\<close> to \<open>Nt\<close> are
  unset when there is no such line, and \<open>Ne\<close> is \<open>1\<close> when there is no line of
  \<open>edef\<close>.
\<close>

theorem ctl_scan_lengths:
  assumes "parse_ctlinfo qctl = Inr c"
  shows "map_option Inr (Nx c) =
       (if filter (either_in ''xdef '' ''XDEF '') qctl = [] then None
        else Some (int_second (last (filter (either_in ''xdef '' ''XDEF '') qctl))))
   \<and> map_option Inr (Ny c) =
       (if filter (\<lambda>l. \<not> either_in ''xdef '' ''XDEF '' l \<and> either_in ''ydef '' ''YDEF '' l) qctl = [] then None
        else Some (int_second (last (filter (\<lambda>l. \<not> either_in ''xdef '' ''XDEF '' l \<and> either_in ''ydef '' ''YDEF '' l) qctl))))
   \<and> map_option Inr (Nz c) =
       (if filter (\<lambda>l. \<not> either_in ''xdef '' ''XDEF '' l \<and> \<not> either_in ''ydef '' ''YDEF '' l \<and> either_in ''zdef '' ''ZDEF '' l) qctl = [] then None
        else Some (int_second (last (filter (\<lambda>l. \<not> either_in ''xdef '' ''XDEF '' l \<and> \<not> either_in ''ydef '' ''YDEF '' l \<and> either_in ''zdef '' ''ZDEF '' l) qctl))))
   \<and> map_option Inr (Nt c) =
       (if filter (\<lambda>l. \<not> either_in ''xdef '' ''XDEF '' l \<and> \<not> either_in ''ydef '' ''YDEF '' l \<and> \<not> either_in ''zdef '' ''ZDEF '' l \<and> either_in ''tdef '' ''TDEF '' l) qctl = [] then None
        else Some (int_second (last (filter (\<lambda>l. \<not> either_in ''xdef '' ''XDEF '' l \<and> \<not> either_in ''ydef '' ''YDEF '' l \<and> \<not> either_in ''zdef '' ''ZDEF '' l \<and> either_in ''tdef '' ''TDEF '' l) qctl))))
   \<and> (Inr (Ne c) :: error + int) =
       (if filter (\<lambda>l. \<not> either_in ''xdef '' ''XDEF '' l \<and> \<not> either_in ''ydef '' ''YDEF '' l \<and> \<not> either_in ''zdef '' ''ZDEF '' l \<and> \<not> either_in ''tdef '' ''TDEF '' l \<and> either_in ''edef '' ''EDEF '' l) qctl = [] then Inr 1
        else int_second (last (filter (\<lambda>l. \<not> either_in ''xdef '' ''XDEF '' l \<and> \<not> either_in ''ydef '' ''YDEF '' l \<and> \<not> either_in ''zdef '' ''ZDEF '' l \<and> \<not> either_in ''tdef '' ''TDEF '' l \<and> either_in ''edef '' ''EDEF '' l) qctl)))"
  using ctl_scan_Nx [OF assms [unfolded parse_ctlinfo_def]]
    ctl_scan_Ny [OF assms [unfolded parse_ctlinfo_def]]
    ctl_scan_Nz [OF assms [unfolded parse_ctlinfo_def]]
    ctl_scan_Nt [OF assms [unfolded parse_ctlinfo_def]]
    ctl_scan_Ne [OF assms [unfolded parse_ctlinfo_def]]
  by simp

lemma int_second_ex1: "int_second ''xdef 144 linear 0 2.5'' = Inr 144"
  by (simp add: int_second_def py_split_def isspace_def item_def sbind_def isdigit_def digit_val_def)

lemma int_second_ex2: "int_second ''YDEF 73 linear -90 2.5'' = Inr 73"
  by (simp add: int_second_def py_split_def isspace_def item_def sbind_def isdigit_def digit_val_def)

lemma parse_ctlinfo_ex:
  "parse_ctlinfo [''dset ^model.dat'', ''xdef 144 linear 0 2.5'', ''YDEF 73 linear -90 2.5'']
     = Inr \<lparr>Nx = Some 144, Ny = Some 73, Nz = None, Nt = None, Ne = 1\<rparr>"
  by (simp add: parse_ctlinfo_def either_in_def int_second_ex1 int_second_ex2 sbind_def)

theorem ctl_scan_lengths_witness:
  "Nx \<lparr>Nx = Some 144, Ny = Some 73, Nz = None, Nt = None, Ne = 1\<rparr> = Some 144
   \<and> Ne \<lparr>Nx = Some 144, Ny = Some 73, Nz = None, Nt = None, Ne = 1\<rparr> = 1
   \<and> int_second (last (filter (either_in ''xdef '' ''XDEF '')
        [''dset ^model.dat'', ''xdef 144 linear 0 2.5'', ''YDEF 73 linear -90 2.5''])) = Inr 144"
  using ctl_scan_lengths [OF parse_ctlinfo_ex]
  by (simp add: either_in_def)

text \<open>
  Claim C8 as stated fails: the keyword in mixed case is not recognised, and the
  length of the \<open>x\<close> axis stays unset.
\<close>

theorem ctl_scan_mixed_case_counterexample:
  "parse_ctlinfo [''Xdef 144 linear 0 2.5'']
     = Inr \<lparr>Nx = None, Ny = None, Nz = None, Nt = None, Ne = 1\<rparr>"
  by (simp add: parse_ctlinfo_def either_in_def)

subsection \<open>The display mode query\<close>

text \<open>
  Claim C7, as the code has it.  On a reply whose lines 1 to 5 have a last token, the
  tokens of lines 1 to 4 are looked up in \<open>graphicTypes\<close> in turn; the first one
  that is not a key raises \<open>KeyError\<close>, and nothing is put in its place.  The key
  \<open>0\<close>, and no other, stands for no mode.  The token of line 5, the station data
  mode, is not looked up: it is kept as it is, except that \<open>6\<close> stands for no mode.
\<close>

theorem parse_gxout_modes:
  assumes "last_token q 1 = Inr k1" and "last_token q 2 = Inr k2" and "last_token q 3 = Inr k3"
    and "last_token q 4 = Inr k4" and "last_token q 5 = Inr sd"
  shows "parse_gxout q =
    (case map_of graphicTypes k1 of None \<Rightarrow> Inl (KeyError k1) | Some m1 \<Rightarrow>
     case map_of graphicTypes k2 of None \<Rightarrow> Inl (KeyError k2) | Some m2 \<Rightarrow>
     case map_of graphicTypes k3 of None \<Rightarrow> Inl (KeyError k3) | Some m3 \<Rightarrow>
     case map_of graphicTypes k4 of None \<Rightarrow> Inl (KeyError k4) | Some m4 \<Rightarrow>
       Inr \<lparr>gx1Dscalar = m1, gx1Dvector = m2, gx2Dscalar = m3, gx2Dvector = m4,
            stationData = (if sd = ''6'' then None else Some sd)\<rparr>)
    \<and> map_of graphicTypes ''0'' = Some None
    \<and> (\<forall>k. map_of graphicTypes k = Some None \<longrightarrow> k = ''0'')"
proof -
  have a: "parse_gxout q =
    (case map_of graphicTypes k1 of None \<Rightarrow> Inl (KeyError k1) | Some m1 \<Rightarrow>
     case map_of graphicTypes k2 of None \<Rightarrow> Inl (KeyError k2) | Some m2 \<Rightarrow>
     case map_of graphicTypes k3 of None \<Rightarrow> Inl (KeyError k3) | Some m3 \<Rightarrow>
     case map_of graphicTypes k4 of None \<Rightarrow> Inl (KeyError k4) | Some m4 \<Rightarrow>
       Inr \<lparr>gx1Dscalar = m1, gx1Dvector = m2, gx2Dscalar = m3, gx2Dvector = m4,
            stationData = (if sd = ''6'' then None else Some sd)\<rparr>)"
    using assms by (simp add: parse_gxout_def graphic_type_def sbind_def split: option.splits)
  have b: "map_of graphicTypes ''0'' = Some None"
    by (simp add: graphicTypes_def)
  have c: "\<forall>k. map_of graphicTypes k = Some None \<longrightarrow> k = ''0''"
    by (simp add: graphicTypes_def)
  from a b c show ?thesis by blast
qed


lemma last_token_ex:
  "last_token [''General = Contour'', ''1D Graphic, 1 expr = Line'', ''1D Graphic, 2 expr = Barb'',
      ''2D Graphic, 1 expr = 16'', ''2D Graphic, 2 expr = 0'', l5] 1 = Inr ''Line''"
  "last_token [''General = Contour'', ''1D Graphic, 1 expr = Line'', ''1D Graphic, 2 expr = Barb'',
      ''2D Graphic, 1 expr = 16'', ''2D Graphic, 2 expr = 0'', l5] 2 = Inr ''Barb''"
  "last_token [''General = Contour'', ''1D Graphic, 1 expr = Line'', ''1D Graphic, 2 expr = Barb'',
      ''2D Graphic, 1 expr = 16'', ''2D Graphic, 2 expr = 0'', l5] 3 = Inr ''16''"
  "last_token [''General = Contour'', ''1D Graphic, 1 expr = Line'', ''1D Graphic, 2 expr = Barb'',
      ''2D Graphic, 1 expr = 16'', ''2D Graphic, 2 expr = 0'', l5] 4 = Inr ''0''"
  by (simp_all add: last_token_def item_def item_last_def py_split_def isspace_def sbind_def)

lemma last_token_ex5:
  "last_token [l0, l1, l2, l3, l4, ''Station data = 6''] 5 = Inr ''6''"
  "last_token [l0, l1, l2, l3, l4, ''Station data = Foo''] 5 = Inr ''Foo''"
  by (simp_all add: last_token_def item_def item_last_def py_split_def isspace_def sbind_def)

theorem parse_gxout_modes_witness:
  "parse_gxout [''General = Contour'', ''1D Graphic, 1 expr = Line'', ''1D Graphic, 2 expr = Barb'',
      ''2D Graphic, 1 expr = 16'', ''2D Graphic, 2 expr = 0'', ''Station data = 6'']
   = Inr \<lparr>gx1Dscalar = Some ''line'', gx1Dvector = Some ''barb'', gx2Dscalar = Some ''shaded'',
          gx2Dvector = None, stationData = None\<rparr>"
  using parse_gxout_modes [OF last_token_ex last_token_ex5(1)]
  by (simp add: graphicTypes_def)

text \<open>
  Claim C7 as stated fails for the fifth token: \<open>Foo\<close> is not a key of the table, and
  the query succeeds with \<open>Foo\<close> as the station data mode.
\<close>

theorem parse_gxout_station_counterexample:
  "parse_gxout [''General = Contour'', ''1D Graphic, 1 expr = Line'', ''1D Graphic, 2 expr = Barb'',
      ''2D Graphic, 1 expr = 16'', ''2D Graphic, 2 expr = 0'', ''Station data = Foo'']
   = Inr \<lparr>gx1Dscalar = Some ''line'', gx1Dvector = Some ''barb'', gx2Dscalar = Some ''shaded'',
          gx2Dvector = None, stationData = Some ''Foo''\<rparr>
   \<and> map_of graphicTypes ''Foo'' = None"
  by (simp add: parse_gxout_def last_token_def item_def item_last_def py_split_def isspace_def
        graphic_type_def graphicTypes_def sbind_def)

subsection \<open>The dimensions query\<close>

lemma int_of_float_floor:
  "int_of_float (np_floor v) = Inr lo \<Longrightarrow> \<exists>a. v = Finite a \<and> lo = \<lfloor>a\<rfloor>"
  by (cases v) (auto simp: int_of_float_def np_floor_def)

lemma int_of_float_ceil:
  "int_of_float (np_ceil v) = Inr hi \<Longrightarrow> \<exists>b. v = Finite b \<and> hi = \<lceil>b\<rceil>"
  by (cases v) (auto simp: int_of_float_def np_ceil_def)

lemma floor_le_ceiling_mono: "(a::rat) \<le> b \<Longrightarrow> \<lfloor>a\<rfloor> \<le> \<lceil>b\<rceil>"
proof -
  assume "a \<le> b"
  have "of_int \<lfloor>a\<rfloor> \<le> a" by (rule of_int_floor_le)
  also have "a \<le> b" by fact
  also have "b \<le> of_int \<lceil>b\<rceil>" by (rule le_of_int_ceiling)
  finally show ?thesis by simp
qed

lemma axis_lengths:
  assumes "grid_of py fixed info = Inr (g, idx)" and "axis_len fixed idx = Inr n"
  shows "(fixed \<longrightarrow> n = 1) \<and>
         (\<not> fixed \<longrightarrow> (\<exists>a b. g = Pair (Finite a) (Finite b) \<and> idx = Pair \<lfloor>a\<rfloor> \<lceil>b\<rceil> \<and>
                          n = \<lceil>b\<rceil> - \<lfloor>a\<rfloor> + 1 \<and> (a \<le> b \<longrightarrow> \<lfloor>a\<rfloor> \<le> \<lceil>b\<rceil>)))"
proof (cases fixed)
  case True
  with assms(2) show ?thesis by (simp add: axis_len_def)
next
  case False
  with assms(1) obtain v1 v2 lo hi where g: "g = Pair v1 v2" and idx: "idx = Pair lo hi"
    and lo: "int_of_float (np_floor v1) = Inr lo" and hi: "int_of_float (np_ceil v2) = Inr hi"
    by (auto simp: grid_of_def sbind_Inr_iff)
  from int_of_float_floor [OF lo] obtain a where a: "v1 = Finite a" "lo = \<lfloor>a\<rfloor>" by blast
  from int_of_float_ceil [OF hi] obtain b where b: "v2 = Finite b" "hi = \<lceil>b\<rceil>" by blast
  from assms(2) False idx have n: "n = hi - lo + 1" by (simp add: axis_len_def)
  show ?thesis
    using False g idx a b n floor_le_ceiling_mono [of a b] by simp
qed

lemma parse_dims_Inr:
  assumes "parse_dims py qdims = Inr d"
  shows "\<exists>l1 l2 l3 l4 l5.
     grid_of py (xfixed d) (py_split l1) = Inr (gx d, xi d) \<and> axis_len (xfixed d) (xi d) = Inr (nx d) \<and>
     grid_of py (yfixed d) (py_split l2) = Inr (gy d, yi d) \<and> axis_len (yfixed d) (yi d) = Inr (ny d) \<and>
     grid_of py (zfixed d) (py_split l3) = Inr (gz d, zi d) \<and> axis_len (zfixed d) (zi d) = Inr (nz d) \<and>
     grid_of py (tfixed d) (py_split l4) = Inr (gt d, ti d) \<and> axis_len (tfixed d) (ti d) = Inr (nt d) \<and>
     grid_of py (efixed d) (py_split l5) = Inr (ge d, ei d) \<and> axis_len (efixed d) (ei d) = Inr (ne d) \<and>
     rank d = count_not [xfixed d, yfixed d, zfixed d, tfixed d, efixed d]"
  using assms
  by (auto simp: parse_dims_def sbind_Inr_iff Let_def split: prod.splits)

text \<open>
  Claim C5, as the code has it.  After a reply to \<open>query dims\<close> has been parsed, a
  fixed axis has length \<open>1\<close>.  A varying axis has finite grid coordinates \<open>a\<close> and
  \<open>b\<close>, its index range is the floor of \<open>a\<close> and the ceiling of \<open>b\<close>, and its length
  is the high index minus the low index plus one.  The low index is at most the high
  index when \<open>a\<close> is at most \<open>b\<close>.
\<close>

theorem parse_dims_lengths:
  assumes "parse_dims py qdims = Inr d"
  shows "(xfixed d \<longrightarrow> nx d = 1) \<and>
     (\<not> xfixed d \<longrightarrow>
        (\<exists>a b. gx d = Pair (Finite a) (Finite b) \<and> xi d = Pair \<lfloor>a\<rfloor> \<lceil>b\<rceil> \<and>
               nx d = \<lceil>b\<rceil> - \<lfloor>a\<rfloor> + 1 \<and> (a \<le> b \<longrightarrow> \<lfloor>a\<rfloor> \<le> \<lceil>b\<rceil>))) \<and>
     (yfixed d \<longrightarrow> ny d = 1) \<and>
     (\<not> yfixed d \<longrightarrow>
        (\<exists>a b. gy d = Pair (Finite a) (Finite b) \<and> yi d = Pair \<lfloor>a\<rfloor> \<lceil>b\<rceil> \<and>
               ny d = \<lceil>b\<rceil> - \<lfloor>a\<rfloor> + 1 \<and> (a \<le> b \<longrightarrow> \<lfloor>a\<rfloor> \<le> \<lceil>b\<rceil>))) \<and>
     (zfixed d \<longrightarrow> nz d = 1) \<and>
     (\<not> zfixed d \<longrightarrow>
        (\<exists>a b. gz d = Pair (Finite a) (Finite b) \<and> zi d = Pair \<lfloor>a\<rfloor> \<lceil>b\<rceil> \<and>
               nz d = \<lceil>b\<rceil> - \<lfloor>a\<rfloor> + 1 \<and> (a \<le> b \<longrightarrow> \<lfloor>a\<rfloor> \<le> \<lceil>b\<rceil>))) \<and>
     (tfixed d \<longrightarrow> nt d = 1) \<and>
     (\<not> tfixed d \<longrightarrow>
        (\<exists>a b. gt d = Pair (Finite a) (Finite b) \<and> ti d = Pair \<lfloor>a\<rfloor> \<lceil>b\<rceil> \<and>
               nt d = \<lceil>b\<rceil> - \<lfloor>a\<rfloor> + 1 \<and> (a \<le> b \<longrightarrow> \<lfloor>a\<rfloor> \<le> \<lceil>b\<rceil>))) \<and>
     (efixed d \<longrightarrow> ne d = 1) \<and>
     (\<not> efixed d \<longrightarrow>
        (\<exists>a b. ge d = Pair (Finite a) (Finite b) \<and> ei d = Pair \<lfloor>a\<rfloor> \<lceil>b\<rceil> \<and>
               ne d = \<lceil>b\<rceil> - \<lfloor>a\<rfloor> + 1 \<and> (a \<le> b \<longrightarrow> \<lfloor>a\<rfloor> \<le> \<lceil>b\<rceil>)))"
proof -
  from parse_dims_Inr [OF assms] obtain l1 l2 l3 l4 l5 where
    x: "grid_of py (xfixed d) (py_split l1) = Inr (gx d, xi d)" "axis_len (xfixed d) (xi d) = Inr (nx d)" and
    y: "grid_of py (yfixed d) (py_split l2) = Inr (gy d, yi d)" "axis_len (yfixed d) (yi d) = Inr (ny d)" and
    z: "grid_of py (zfixed d) (py_split l3) = Inr (gz d, zi d)" "axis_len (zfixed d) (zi d) = Inr (nz d)" and
    t: "grid_of py (tfixed d) (py_split l4) = Inr (gt d, ti d)" "axis_len (tfixed d) (ti d) = Inr (nt d)" and
    e: "grid_of py (efixed d) (py_split l5) = Inr (ge d, ei d)" "axis_len (efixed d) (ei d) = Inr (ne d)"
    by blast
  from axis_lengths [OF x] axis_lengths [OF y] axis_lengths [OF z] axis_lengths [OF t] axis_lengths [OF e]
  show ?thesis by (intro conjI) blast+
qed

text \<open>The reply of the examples, evaluated.\<close>

lemma ex_split:
  "py_split ''Default file number is: 1'' = [''Default'', ''file'', ''number'', ''is:'', ''1'']"
  "py_split ''X is varying   Lon = 0 to 360   X = 1.5 to 3.25''
     = [''X'', ''is'', ''varying'', ''Lon'', ''='', ''0'', ''to'', ''360'', ''X'', ''='', ''1.5'', ''to'', ''3.25'']"
  "py_split ''X is varying   Lon = 0 to 360   X = 5 to 3''
     = [''X'', ''is'', ''varying'', ''Lon'', ''='', ''0'', ''to'', ''360'', ''X'', ''='', ''5'', ''to'', ''3'']"
  "py_split ''Y is varying   Lat = -90 to 90   Y = 1 to 73''
     = [''Y'', ''is'', ''varying'', ''Lat'', ''='', ''-90'', ''to'', ''90'', ''Y'', ''='', ''1'', ''to'', ''73'']"
  "py_split ''Z is fixed     Lev = 1000  Z = 1''
     = [''Z'', ''is'', ''fixed'', ''Lev'', ''='', ''1000'', ''Z'', ''='', ''1'']"
  "py_split ''T is fixed     Time = 00Z01JAN2000  T = 1''
     = [''T'', ''is'', ''fixed'', ''Time'', ''='', ''00Z01JAN2000'', ''T'', ''='', ''1'']"
  "py_split ''E is fixed     Ens = 1  E = 1''
     = [''E'', ''is'', ''fixed'', ''Ens'', ''='', ''1'', ''E'', ''='', ''1'']"
  by (simp_all add: py_split_def isspace_def)

lemma ex_float:
  "float_of example_lib ''0'' = Inr (Finite 0)"
  "float_of example_lib ''1'' = Inr (Finite 1)"
  "float_of example_lib ''3'' = Inr (Finite 3)"
  "float_of example_lib ''5'' = Inr (Finite 5)"
  "float_of example_lib ''73'' = Inr (Finite 73)"
  "float_of example_lib ''90'' = Inr (Finite 90)"
  "float_of example_lib ''-90'' = Inr (Finite (- 90))"
  "float_of example_lib ''360'' = Inr (Finite 360)"
  "float_of example_lib ''1000'' = Inr (Finite 1000)"
  "float_of example_lib ''1.5'' = Inr (Finite (3 / 2))"
  "float_of example_lib ''3.25'' = Inr (Finite (13 / 4))"
  "strptime example_lib ''00Z01JAN2000'' = Inr \<lparr>year = 2000, month = 1, day = 1, hour = 0\<rparr>"
  by (simp_all add: example_lib_def)

lemma fl1: "\<lfloor>3 / 2 :: rat\<rfloor> = 1" by code_simp
lemma fl2: "\<lceil>13 / 4 :: rat\<rceil> = 4" by code_simp

lemma ex_round1: "int_of_float (np_round (Finite 1)) = Inr 1"
  by (simp add: int_of_float_def np_round_def half_even_def)

lemma ex_grid:
  "grid_of example_lib False [''X'', ''is'', ''varying'', ''Lon'', ''='', ''0'', ''to'', ''360'', ''X'', ''='', ''1.5'', ''to'', ''3.25'']
    = Inr (Pair (Finite (3 / 2)) (Finite (13 / 4)), Pair 1 4)"
  "grid_of example_lib False [''X'', ''is'', ''varying'', ''Lon'', ''='', ''0'', ''to'', ''360'', ''X'', ''='', ''5'', ''to'', ''3'']
    = Inr (Pair (Finite 5) (Finite 3), Pair 5 3)"
  "grid_of example_lib False [''Y'', ''is'', ''varying'', ''Lat'', ''='', ''-90'', ''to'', ''90'', ''Y'', ''='', ''1'', ''to'', ''73'']
    = Inr (Pair (Finite 1) (Finite 73), Pair 1 73)"
  by (simp_all add: grid_of_def item_def sbind_def ex_float int_of_float_def np_floor_def np_ceil_def fl1 fl2)

lemma ex_grid_fixed:
  "grid_of example_lib True [''Z'', ''is'', ''fixed'', ''Lev'', ''='', ''1000'', ''Z'', ''='', ''1'']
    = Inr (Single (Finite 1), Single 1)"
  "grid_of example_lib True [''T'', ''is'', ''fixed'', ''Time'', ''='', ''00Z01JAN2000'', ''T'', ''='', ''1'']
    = Inr (Single (Finite 1), Single 1)"
  "grid_of example_lib True [''E'', ''is'', ''fixed'', ''Ens'', ''='', ''1'', ''E'', ''='', ''1'']
    = Inr (Single (Finite 1), Single 1)"
  by (simp_all add: grid_of_def item_def sbind_def ex_float ex_round1)

lemma ex_world:
  "world_of (float_of example_lib) False [''X'', ''is'', ''varying'', ''Lon'', ''='', ''0'', ''to'', ''360'', ''X'', ''='', a, ''to'', b]
    = Inr (Pair (Finite 0) (Finite 360))"
  "world_of (float_of example_lib) False [''Y'', ''is'', ''varying'', ''Lat'', ''='', ''-90'', ''to'', ''90'', ''Y'', ''='', ''1'', ''to'', ''73'']
    = Inr (Pair (Finite (- 90)) (Finite 90))"
  "world_of (float_of example_lib) True [''Z'', ''is'', ''fixed'', ''Lev'', ''='', ''1000'', ''Z'', ''='', ''1'']
    = Inr (Single (Finite 1000))"
  "world_of (strptime example_lib) True [''T'', ''is'', ''fixed'', ''Time'', ''='', ''00Z01JAN2000'', ''T'', ''='', ''1'']
    = Inr (Single \<lparr>year = 2000, month = 1, day = 1, hour = 0\<rparr>)"
  by (simp_all add: world_of_def item_def sbind_def ex_float)

lemma ex_fixed:
  "\<not> py_in ''fixed'' ''X is varying   Lon = 0 to 360   X = 1.5 to 3.25''"
  "\<not> py_in ''fixed'' ''X is varying   Lon = 0 to 360   X = 5 to 3''"
  "\<not> py_in ''fixed'' ''Y is varying   Lat = -90 to 90   Y = 1 to 73''"
  "py_in ''fixed'' ''Z is fixed     Lev = 1000  Z = 1''"
  "py_in ''fixed'' ''T is fixed     Time = 00Z01JAN2000  T = 1''"
  "py_in ''fixed'' ''E is fixed     Ens = 1  E = 1''"
  by simp_all

lemma ex_fid: "py_int ''1'' = Inr 1"
  by (simp add: isdigit_def digit_val_def)


lemma parse_dims_ex:
  "parse_dims example_lib ex_dims
   = Inr \<lparr>fid = 1, xfixed = False, yfixed = False, zfixed = True, tfixed = True, efixed = True,
          lon = Pair (Finite 0) (Finite 360), gx = Pair (Finite (3 / 2)) (Finite (13 / 4)), xi = Pair 1 4,
          lat = Pair (Finite (- 90)) (Finite 90), gy = Pair (Finite 1) (Finite 73), yi = Pair 1 73,
          lev = Single (Finite 1000), gz = Single (Finite 1), zi = Single 1,
          time = Single \<lparr>year = 2000, month = 1, day = 1, hour = 0\<rparr>, gt = Single (Finite 1), ti = Single 1,
          ge = Single (Finite 1), ei = Single 1, nx = 4, ny = 73, nz = 1, nt = 1, ne = 1, rank = 2\<rparr>"
  by (simp add: parse_dims_def ex_dims_def item_def item_last_def ex_split ex_fixed ex_fid ex_grid ex_grid_fixed
        ex_world sbind_def axis_len_def count_not_def isdigit_def digit_val_def)

theorem parse_dims_lengths_witness:
  "\<exists>d. parse_dims example_lib ex_dims = Inr d \<and> \<not> xfixed d \<and> zfixed d \<and>
      gx d = Pair (Finite (3 / 2)) (Finite (13 / 4)) \<and> xi d = Pair 1 4 \<and> nx d = 4 \<and> nz d = 1"
  using parse_dims_lengths [OF parse_dims_ex] parse_dims_ex
  by simp

text \<open>
  Claim C5 as stated fails: nothing orders the two coordinates of a reply.  For
  \<open>X = 5 to 3\<close> the index range is \<open>(5, 3)\<close>, with the low index above the high one,
  and the length is \<open>-1\<close>.
\<close>

theorem parse_dims_reversed_counterexample:
  "\<exists>d. parse_dims example_lib
          [''Default file number is: 1'',
           ''X is varying   Lon = 0 to 360   X = 5 to 3'',
           ''Y is varying   Lat = -90 to 90   Y = 1 to 73'',
           ''Z is fixed     Lev = 1000  Z = 1'',
           ''T is fixed     Time = 00Z01JAN2000  T = 1'',
           ''E is fixed     Ens = 1  E = 1''] = Inr d
       \<and> \<not> xfixed d \<and> xi d = Pair 5 3 \<and> nx d = - 1"
  by (simp add: parse_dims_def item_def item_last_def ex_split ex_fixed ex_grid ex_grid_fixed
        ex_world sbind_def axis_len_def count_not_def isdigit_def digit_val_def)

subsection \<open>Export of a grid\<close>

lemma digits_err: "digits acc prev s = Inl e \<Longrightarrow> e = ValueError"
  by (induction s arbitrary: acc prev) (auto split: if_splits)

lemma py_int_err: "py_int s = Inl e \<Longrightarrow> e = ValueError"
  by (cases s) (auto simp: sbind_def split: if_splits sum.splits dest: digits_err)

lemma int_second_err: "int_second s = Inl e \<Longrightarrow> e = ValueError \<or> e = IndexError"
  by (auto simp: int_second_def sbind_def item_def split: if_splits sum.splits dest: py_int_err)

lemma decode_err: "decode enc bs = Inl e \<Longrightarrow> e = UnicodeDecodeError \<or> e = WideCharacter"
  by (auto simp: decode_def split: encoding.splits option.splits if_splits)

lemma read_text_err:
  "read_text enc s = (Inl e, s') \<Longrightarrow> e = UnicodeDecodeError \<or> e = WideCharacter"
  by (auto simp: read_text_def split: prod.splits dest: decode_err)

lemma seek_loop_err:
  "seek_loop enc m out seen s = (Inl e, sn, s') \<Longrightarrow>
     e = GrADSError ''GrADS terminated.'' \<or> e = UnicodeDecodeError \<or> e = WideCharacter"
proof (induction enc m out seen s rule: seek_loop.induct)
  case (1 enc marker out seen s)
  from "1.prems" show ?case
    by (subst (asm) seek_loop.simps)
       (auto split: if_splits sum.splits prod.splits dest: read_text_err "1.IH")
qed

lemma collect_loop_err:
  "collect_loop enc me out lines rc s = (Inl e, ls, s') \<Longrightarrow>
     e = ValueError \<or> e = IndexError \<or> e = GrADSError ''GrADS terminated.''
     \<or> e = UnicodeDecodeError \<or> e = WideCharacter"
proof (induction enc me out lines rc s rule: collect_loop.induct)
  case (1 enc me out lines rc s)
  from "1.prems" show ?case
    by (subst (asm) collect_loop.simps)
       (auto split: if_splits sum.splits prod.splits dest: int_second_err read_text_err "1.IH")
qed

lemma parse_output_err:
  "parse_output m v enc g = (Inl e, g') \<Longrightarrow>
     e = ValueError \<or> e = IndexError \<or> e = GrADSError ''GrADS terminated.''
     \<or> e = UnicodeDecodeError \<or> e = WideCharacter"
  by (auto simp: parse_output_def split: if_splits prod.splits sum.splits
      dest: collect_loop_err seek_loop_err read_text_err)

lemma write_stdin_err: "write_stdin bs g = (Inl e, g') \<Longrightarrow> e = ValueError \<or> e = BrokenPipeError"
  by (auto simp: write_stdin_def split: if_splits)

lemma cmd_err: "cmd c v b g = (Inl e, g') \<Longrightarrow> \<forall>m. e \<noteq> PygradsError m"
  by (auto simp: cmd_def io_bind_def split: if_splits prod.splits sum.splits
      dest: parse_output_err write_stdin_err)

lemma move_pointer_err: "move_pointer mk enc v g = (Inl e, g') \<Longrightarrow> \<forall>m. e \<noteq> PygradsError m"
  by (auto simp: move_pointer_def split: if_splits prod.splits dest: seek_loop_err)

lemma cmd_stdin_Inr:
  "cmd c v b g = (Inr r, g') \<Longrightarrow> stdin g' = stdin g @ encode_utf8 (terminated c)"
proof -
  assume a: "cmd c v b g = (Inr r, g')"
  have p: "parse_output ''IPC'' w enc g1 = (x, g2) \<Longrightarrow> stdin g2 = stdin g1" for w enc g1 x g2
    using parse_output_stdin [of "''IPC''" w enc g1] by simp
  from a show ?thesis
    by (auto simp: cmd_def io_bind_def write_stdin_def split: if_splits prod.splits sum.splits dest: p)
qed

lemma query_Inr:
  "query q parse g = (Inr a, g') \<Longrightarrow>
     (\<exists>ls. parse ls = Inr a) \<and> stdin g' = stdin g @ encode_utf8 (terminated (''query '' @ q))"
  by (auto simp: query_def io_bind_def split: if_splits prod.splits sum.splits dest: cmd_stdin_Inr)

lemma env_all_Inr:
  assumes "env py ''all'' g = (Inr ev, g1)"
  shows "\<exists>d c x qd. ev = \<lparr>dims_of = Some d, ctl_of = Some c, gxout_of = Some x\<rparr> \<and>
           parse_dims py qd = Inr d \<and>
           stdin g1 = stdin g @ ''query dims\<newline>'' @ ''query ctlinfo\<newline>'' @ ''query gxout\<newline>''"
proof -
  from assms obtain d ga c gb x where
    qd: "query ''dims'' (parse_dims py) g = (Inr d, ga)" and
    qc: "query ''ctlinfo'' parse_ctlinfo ga = (Inr c, gb)" and
    qx: "query ''gxout'' parse_gxout gb = (Inr x, g1)" and
    ev: "ev = \<lparr>dims_of = Some d, ctl_of = Some c, gxout_of = Some x\<rparr>"
    by (auto simp: env_def GaEnv_init_def io_bind_def split: prod.splits sum.splits)
  from query_Inr [OF qd] obtain qdl where pd: "parse_dims py qdl = Inr d"
    and s1: "stdin ga = stdin g @ encode_utf8 (terminated (''query '' @ ''dims''))" by blast
  from query_Inr [OF qc] have s2: "stdin gb = stdin ga @ encode_utf8 (terminated (''query '' @ ''ctlinfo''))" by blast
  from query_Inr [OF qx] have s3: "stdin g1 = stdin gb @ encode_utf8 (terminated (''query '' @ ''gxout''))" by blast
  have "stdin g1 = stdin g @ ''query dims\<newline>'' @ ''query ctlinfo\<newline>'' @ ''query gxout\<newline>''"
    using s1 s2 s3 by (simp add: terminated_def NL_def encode_utf8_def)
  with ev pd show ?thesis by blast
qed

lemma exp_start_err: "exp_start expr g = (Inl e, g') \<Longrightarrow> \<forall>m. e \<noteq> PygradsError m"
  by (auto simp: exp_start_def io_bind_def split: prod.splits sum.splits
      dest: cmd_err move_pointer_err)

lemma resolve_shape_err:
  "resolve_shape expr a b p = Inl e \<Longrightarrow>
     e = PygradsError (''Problems occurred while exporting GrADS expression: '' @ expr)"
  by (auto simp: resolve_shape_def Let_def split: sum.splits if_splits)

lemma exp_finish_err:
  "exp_finish expr d x p g = (Inl e, g') \<Longrightarrow>
     e \<noteq> PygradsError (''Unsupported environment for export of expression: '' @ expr)"
  by (auto simp: exp_finish_def flush_def io_bind_def restore_cmd_def reshape_def
      split: prod.splits sum.splits option.splits if_splits
      dest: cmd_err resolve_shape_err)

lemma count_not_filter: "count_not ds = int (length (filter Not ds))"
  by (induction ds) (auto simp: count_not_def)

text \<open>
  Claim C4.  When the snapshot of the environment has been taken, its rank is the
  number of axes among \<open>x\<close>, \<open>y\<close>, \<open>z\<close>, \<open>t\<close>, \<open>e\<close> that are not fixed.  If the
  \<open>x\<close> axis or the \<open>y\<close> axis is fixed or the rank is not \<open>2\<close>, \<open>exp\<close> raises the
  \<open>PygradsError\<close> of an unsupported environment in the state the snapshot left: the
  three queries are all that was written to the process.  Otherwise, whatever \<open>exp\<close>
  returns or raises, it is not that error.
\<close>

theorem exp_unsupported:
  assumes "env py ''all'' g = (Inr ev, g1)"
  shows "\<exists>d. dims_of ev = Some d \<and>
     rank d = int (length (filter Not [xfixed d, yfixed d, zfixed d, tfixed d, efixed d])) \<and>
     (xfixed d \<or> yfixed d \<or> rank d \<noteq> 2 \<longrightarrow>
        exp py expr g =
          Some (Inl (PygradsError (''Unsupported environment for export of expression: '' @ expr)), g1) \<and>
        stdin g1 = stdin g @ ''query dims\<newline>'' @ ''query ctlinfo\<newline>'' @ ''query gxout\<newline>'') \<and>
     (\<not> (xfixed d \<or> yfixed d \<or> rank d \<noteq> 2) \<longrightarrow>
        (\<forall>r g'. exp py expr g = Some (r, g') \<longrightarrow>
           r \<noteq> Inl (PygradsError (''Unsupported environment for export of expression: '' @ expr))))"
proof -
  from env_all_Inr [OF assms] obtain d c x qd where
    ev: "ev = \<lparr>dims_of = Some d, ctl_of = Some c, gxout_of = Some x\<rparr>" and
    pd: "parse_dims py qd = Inr d" and
    si: "stdin g1 = stdin g @ ''query dims\<newline>'' @ ''query ctlinfo\<newline>'' @ ''query gxout\<newline>''"
    by blast
  from parse_dims_Inr [OF pd]
  have rk: "rank d = int (length (filter Not [xfixed d, yfixed d, zfixed d, tfixed d, efixed d]))"
    by (auto simp only: count_not_filter)
  have un: "exp py expr g =
      Some (Inl (PygradsError (''Unsupported environment for export of expression: '' @ expr)), g1)"
    if "xfixed d \<or> yfixed d \<or> rank d \<noteq> 2"
    using that assms ev by (simp add: exp_def)
  have other: "r \<noteq> Inl (PygradsError (''Unsupported environment for export of expression: '' @ expr))"
    if n: "\<not> (xfixed d \<or> yfixed d \<or> rank d \<noteq> 2)" and r: "exp py expr g = Some (r, g')" for r g'
  proof (cases "exp_start expr g1")
    case (Pair a g2)
    show ?thesis
    proof (cases a)
      case (Inl e)
      with Pair n r assms ev have "r = Inl e" by (simp add: exp_def)
      with exp_start_err [of expr g1 e g2] Pair Inl show ?thesis by auto
    next
      case (Inr u)
      show ?thesis
      proof (cases "stdout_closed g2")
        case True
        with Pair Inr n r assms ev show ?thesis by (auto simp: exp_def)
      next
        case False
        with Pair Inr n r assms ev obtain p s' where
          "exp_finish expr d x p (g2\<lparr>stdout := s'\<rparr>) = (r, g')"
          by (auto simp: exp_def split: option.splits)
        with exp_finish_err [of expr d x p "g2\<lparr>stdout := s'\<rparr>" _ g'] show ?thesis
          by (cases r) auto
      qed
    qed
  qed
  from ev rk un si other show ?thesis by auto
qed

text \<open>Two sessions: one with the \<open>x\<close> axis fixed, one with two varying axes whose process
  ends after the queries.\<close>

lemma env_ex_xfixed:
  "env example_lib ''all'' (ex_session ex_dims_xfixed) =
    (Inr \<lparr>dims_of = Some \<lparr>fid = 1, xfixed = True, yfixed = False, zfixed = True, tfixed = True, efixed = True,
          lon = Single (Finite 0), gx = Single (Finite 1), xi = Single 1,
          lat = Pair (Finite (- 90)) (Finite 90), gy = Pair (Finite 1) (Finite 73), yi = Pair 1 73,
          lev = Single (Finite 1000), gz = Single (Finite 1), zi = Single 1,
          time = Single \<lparr>year = 2000, month = 1, day = 1, hour = 0\<rparr>, gt = Single (Finite 1), ti = Single 1,
          ge = Single (Finite 1), ei = Single 1, nx = 1, ny = 73, nz = 1, nt = 1, ne = 1, rank = 1\<rparr>,
        ctl_of = Some \<lparr>Nx = Some 144, Ny = Some 73, Nz = None, Nt = None, Ne = 1\<rparr>,
        gxout_of = Some \<lparr>gx1Dscalar = Some ''line'', gx1Dvector = Some ''barb'', gx2Dscalar = Some ''shaded'',
          gx2Dvector = Some ''vector'', stationData = None\<rparr>\<rparr>,
     \<lparr>verbose = False, stdin = ''query dims\<newline>query ctlinfo\<newline>query gxout\<newline>'', stdout = [],
      stdin_closed = False, stdin_broken = False, stdout_closed = False, printed = []\<rparr>)"
  by code_simp

lemma env_ex_varying:
  "env example_lib ''all'' (ex_session ex_dims) =
    (Inr \<lparr>dims_of = Some \<lparr>fid = 1, xfixed = False, yfixed = False, zfixed = True, tfixed = True, efixed = True,
          lon = Pair (Finite 0) (Finite 360), gx = Pair (Finite (3 / 2)) (Finite (13 / 4)), xi = Pair 1 4,
          lat = Pair (Finite (- 90)) (Finite 90), gy = Pair (Finite 1) (Finite 73), yi = Pair 1 73,
          lev = Single (Finite 1000), gz = Single (Finite 1), zi = Single 1,
          time = Single \<lparr>year = 2000, month = 1, day = 1, hour = 0\<rparr>, gt = Single (Finite 1), ti = Single 1,
          ge = Single (Finite 1), ei = Single 1, nx = 4, ny = 73, nz = 1, nt = 1, ne = 1, rank = 2\<rparr>,
        ctl_of = Some \<lparr>Nx = Some 144, Ny = Some 73, Nz = None, Nt = None, Ne = 1\<rparr>,
        gxout_of = Some \<lparr>gx1Dscalar = Some ''line'', gx1Dvector = Some ''barb'', gx2Dscalar = Some ''shaded'',
          gx2Dvector = Some ''vector'', stationData = None\<rparr>\<rparr>,
     \<lparr>verbose = False, stdin = ''query dims\<newline>query ctlinfo\<newline>query gxout\<newline>'', stdout = [],
      stdin_closed = False, stdin_broken = False, stdout_closed = False, printed = []\<rparr>)"
  by code_simp

lemma exp_ex_varying:
  "exp example_lib ''t'' (ex_session ex_dims) =
     Some (Inl (GrADSError ''GrADS terminated.''),
       \<lparr>verbose = False, stdin = ''query dims\<newline>query ctlinfo\<newline>query gxout\<newline>set gxout fwrite\<newline>'',
        stdout = [], stdin_closed = False, stdin_broken = False, stdout_closed = False, printed = []\<rparr>)"
  by code_simp

theorem exp_unsupported_witness:
  "exp example_lib ''t'' (ex_session ex_dims_xfixed) =
     Some (Inl (PygradsError ''Unsupported environment for export of expression: t''),
       \<lparr>verbose = False, stdin = ''query dims\<newline>query ctlinfo\<newline>query gxout\<newline>'', stdout = [],
        stdin_closed = False, stdin_broken = False, stdout_closed = False, printed = []\<rparr>)
   \<and> (\<exists>r g'. exp example_lib ''t'' (ex_session ex_dims) = Some (r, g') \<and>
         r \<noteq> Inl (PygradsError ''Unsupported environment for export of expression: t''))"
  using exp_unsupported [OF env_ex_xfixed, of "''t''"] exp_unsupported [OF env_ex_varying, of "''t''"]
    exp_ex_varying
  by simp

end
